theory Spec2Isabelle
  imports Complex_Main
begin

section \<open>The satellite store\<close>

text \<open>
  The store of \<^verbatim>\<open>useSatelliteStore\<close> is a record of its state fields; every
  action is a function from the store to the updated store. In the store, the closest
  satellite scan and the propagation tick, JavaScript numbers are modelled
  as real numbers (rounding, NaN and overflow are outside the model); the only non-finite
  number the code writes itself, the initial minimum \<^verbatim>\<open>Infinity\<close> of the closest
  satellite scan, is a constructor of the type \<open>number\<close>. The camera transition and
  the level of detail of the trail, where rounding decides what holds, are modelled in
  binary64 arithmetic further down. A value of type
  \<^verbatim>\<open>string | null\<close> is a \<open>string option\<close>, and JavaScript's truthiness test
  on it (\<^verbatim>\<open>!v\<close>, \<^verbatim>\<open>if (v)\<close>) is \<open>truthy\<close>: both \<^verbatim>\<open>null\<close> and the
  empty string are falsy.
\<close>

record SatelliteInfo =
  name :: string
  noradId :: string
  line1 :: string
  line2 :: string
  category :: "string option"
  operator :: "string option"
  launchDate :: "string option"

record SatellitePosition =
  x :: real
  y :: real
  z :: real
  lat :: real
  lon :: real
  alt :: real
  velocity :: real

datatype number = Num real | Infinity

type_synonym PositionMap = "string \<rightharpoonup> SatellitePosition"

record SatelliteStore =
  satellites :: "SatelliteInfo list"
  satellitePositions :: PositionMap
  selectedSatellite :: "string option"
  hoveredSatellite :: "string option"
  followedSatellite :: "string option"
  visitedObject :: "string option"
  closestSatelliteMode :: bool
  closestSatelliteId :: "string option"
  closestSatelliteDistance :: "number option"
  currentTime :: real
  timeSpeed :: real
  isPaused :: bool
  searchQuery :: string
  filterCategory :: "string option"
  filterOperator :: "string option"
  showTrails :: bool
  showLabels :: bool
  trailLength :: real
  realtimePositionGetter :: "(unit \<Rightarrow> PositionMap) option"

definition truthy :: "string option \<Rightarrow> bool" where
  "truthy v = (case v of None \<Rightarrow> False | Some t \<Rightarrow> t \<noteq> [])"

definition setSatellitePosition :: "string \<Rightarrow> SatellitePosition \<Rightarrow> SatelliteStore \<Rightarrow> SatelliteStore" where
  "setSatellitePosition nid position state =
     state\<lparr>satellitePositions := (satellitePositions state)(nid \<mapsto> position)\<rparr>"

definition setSelectedSatellite :: "string option \<Rightarrow> SatelliteStore \<Rightarrow> SatelliteStore" where
  "setSelectedSatellite nid state =
     state\<lparr>selectedSatellite := nid,
           closestSatelliteMode := False,
           closestSatelliteId := None,
           closestSatelliteDistance := None\<rparr>"

definition setVisitedObject :: "string option \<Rightarrow> SatelliteStore \<Rightarrow> SatelliteStore" where
  "setVisitedObject object state = state\<lparr>visitedObject := object\<rparr>"

definition disableClosestSatelliteMode :: "SatelliteStore \<Rightarrow> SatelliteStore" where
  "disableClosestSatelliteMode state =
     state\<lparr>closestSatelliteMode := False,
           closestSatelliteId := None,
           closestSatelliteDistance := None\<rparr>"

definition setClosestSatellite :: "string option \<Rightarrow> number option \<Rightarrow> SatelliteStore \<Rightarrow> SatelliteStore" where
  "setClosestSatellite satelliteId distance state =
     state\<lparr>closestSatelliteId := satelliteId, closestSatelliteDistance := distance\<rparr>"

definition setRealtimePositionGetter :: "(unit \<Rightarrow> PositionMap) option \<Rightarrow> SatelliteStore \<Rightarrow> SatelliteStore" where
  "setRealtimePositionGetter getter state = state\<lparr>realtimePositionGetter := getter\<rparr>"

text \<open>
  \<^verbatim>\<open>getRealtimePosition\<close>: with a getter registered, the entry of the map the getter
  returns; otherwise the entry of the throttled map. A stored position is an object, hence
  truthy, so \<^verbatim>\<open>m.get(id) || null\<close> is the lookup itself.
\<close>

definition getRealtimePosition :: "SatelliteStore \<Rightarrow> string \<Rightarrow> SatellitePosition option" where
  "getRealtimePosition state nid =
     (case realtimePositionGetter state of
        Some getter \<Rightarrow> (let realtimePositions = getter () in realtimePositions nid)
      | None \<Rightarrow> satellitePositions state nid)"

text \<open>\<^verbatim>\<open>distance < closestDistance\<close>, where the running minimum may still be \<^verbatim>\<open>Infinity\<close>.\<close>

fun less_number :: "real \<Rightarrow> number \<Rightarrow> bool" where
  "less_number d Infinity = True"
| "less_number d (Num c) = (d < c)"

text \<open>
  The body of the \<^verbatim>\<open>forEach\<close> callback of \<^verbatim>\<open>findClosestSatellite\<close>; the pair is
  the two variables \<^verbatim>\<open>closestId\<close> and \<^verbatim>\<open>closestDistance\<close> the callback assigns.
\<close>

definition closestStep ::
  "SatelliteStore \<Rightarrow> string \<Rightarrow> SatellitePosition \<Rightarrow> SatelliteInfo \<Rightarrow>
   string option \<times> number \<Rightarrow> string option \<times> number" where
  "closestStep state selectedId selectedPos sat acc =
     (let nid = noradId sat in
      if nid = selectedId then acc
      else
        (case getRealtimePosition state nid of
           None \<Rightarrow> acc
         | Some pos \<Rightarrow>
             (let dx = x pos - x selectedPos;
                  dy = y pos - y selectedPos;
                  dz = z pos - z selectedPos;
                  distance = sqrt (dx * dx + dy * dy + dz * dz)
              in if less_number distance (snd acc) then (Some nid, Num distance) else acc)))"

definition findClosestSatellite :: "SatelliteStore \<Rightarrow> SatelliteStore" where
  "findClosestSatellite state =
     (case selectedSatellite state of
        None \<Rightarrow> state
      | Some selectedId \<Rightarrow>
          if \<not> truthy (Some selectedId) then state
          else
            (case getRealtimePosition state selectedId of
               None \<Rightarrow> state
             | Some selectedPos \<Rightarrow>
                 (case realtimePositionGetter state of
                    None \<Rightarrow> state
                  | Some realtimeGetter \<Rightarrow>
                      (let (closestId, closestDistance) =
                             fold (closestStep state selectedId selectedPos)
                                  (satellites state) (None, Infinity)
                       in if truthy closestId
                          then state\<lparr>closestSatelliteId := closestId,
                                     closestSatelliteDistance := Some closestDistance\<rparr>
                          else state))))"

text \<open>
  \<^verbatim>\<open>enableClosestSatelliteMode\<close> also schedules a call of
  \<^verbatim>\<open>findClosestSatellite\<close> with \<^verbatim>\<open>setTimeout\<close>. The application state is therefore
  the store together with the queue of pending timer callbacks; the only callback the store
  schedules is \<open>FindClosest\<close>. The callback calls \<^verbatim>\<open>get()\<close> when it runs, so it
  works on the store of that moment.
\<close>

datatype callback = FindClosest

record app =
  store :: SatelliteStore
  timers :: "callback list"

definition enableClosestSatelliteMode :: "app \<Rightarrow> app" where
  "enableClosestSatelliteMode a =
     (let state = store a in
      if \<not> truthy (selectedSatellite state) then a
      else a\<lparr>store := state\<lparr>closestSatelliteMode := True\<rparr>,
              timers := timers a @ [FindClosest]\<rparr>)"

text \<open>The oldest pending timer fires: its callback runs on the current store.\<close>

definition fireTimer :: "app \<Rightarrow> app" where
  "fireTimer a =
     (case timers a of
        [] \<Rightarrow> a
      | FindClosest # rest \<Rightarrow> a\<lparr>store := findClosestSatellite (store a), timers := rest\<rparr>)"

text \<open>The user intents and the timer, as events on the application state.\<close>

datatype event =
    Select "string option"
  | EnableCompare
  | DisableCompare
  | TimerFires

fun step :: "app \<Rightarrow> event \<Rightarrow> app" where
  "step a (Select nid) = a\<lparr>store := setSelectedSatellite nid (store a)\<rparr>"
| "step a EnableCompare = enableClosestSatelliteMode a"
| "step a DisableCompare = a\<lparr>store := disableClosestSatelliteMode (store a)\<rparr>"
| "step a TimerFires = fireTimer a"

definition run :: "app \<Rightarrow> event list \<Rightarrow> app" where
  "run a evs = foldl step a evs"

text \<open>
  The details panel hands \<^verbatim>\<open>closestSatelliteDistance\<close> to
  \<^verbatim>\<open>formatDistance(km)\<close>. The rendering \<^verbatim>\<open>toFixed(n)\<close> is kept as the pair of
  the value and the number of decimals; the third component is the unit the panel prints.
\<close>

definition formatDistance :: "real \<Rightarrow> real \<times> nat \<times> string" where
  "formatDistance km =
     (if km < 1 then (km * 1000, 0, ''m'')
      else if km < 100 then (km, 2, ''km'')
      else (km, 0, ''km''))"

section \<open>The propagation tick of the Satellites component\<close>

text \<open>
  The component keeps its position buffer and its frame counter in refs, outside the store.
  The orbital library \<^verbatim>\<open>satellite.js\<close> is an external collaborator: its functions are
  the fields of \<open>satlib\<close>, each returning either a thrown exception or a value. Vectors
  are triples of reals. The pointing hardware is an opaque state \<open>'h\<close>; the computation of
  the angles and the rate-limited send, which never feed back into the pipeline, are the one
  function \<open>pointAt\<close>. The instanced mesh holds a position with a scale and a colour per
  slot; its \<^verbatim>\<open>needsUpdate\<close> flags, instructions to the renderer that the pipeline
  never reads, are left out.
\<close>

type_synonym Vector3 = "real \<times> real \<times> real"

datatype exn = Error string

definition SCALE_FACTOR :: real where
  "SCALE_FACTOR = 1 / 1000"

definition ZUSTAND_UPDATE_INTERVAL :: nat where
  "ZUSTAND_UPDATE_INTERVAL = 60"

definition EARTH_RADIUS :: real where
  "EARTH_RADIUS = 6.371"

record 'r SatelliteData =
  satrec :: 'r
  info :: SatelliteInfo
  trail :: "Vector3 list"

record ('r, 'h) satlib =
  twoline2satrec :: "string \<Rightarrow> string \<Rightarrow> exn + 'r"
  propagate :: "'r \<Rightarrow> real \<Rightarrow> exn + (Vector3 \<times> Vector3)"
  gstime :: "real \<Rightarrow> exn + real"
  eciToEcf :: "Vector3 \<Rightarrow> real \<Rightarrow> exn + Vector3"
  eciToGeodetic :: "Vector3 \<Rightarrow> real \<Rightarrow> exn + (real \<times> real \<times> real)"
  pointAt :: "Vector3 \<Rightarrow> 'h \<Rightarrow> 'h"

record InstancedMesh =
  instanceMatrix :: "nat \<rightharpoonup> Vector3 \<times> real"
  instanceColor :: "nat \<rightharpoonup> nat"

record 'h Satellites =
  meshRef :: "InstancedMesh option"
  localPositionBuffer :: PositionMap
  frameCounter :: nat
  hardware :: 'h
  console :: "exn list"
  zustand :: SatelliteStore

text \<open>The memo \<^verbatim>\<open>satelliteData\<close>: the catalog entries whose two lines parse.\<close>

definition satelliteData :: "('r, 'h) satlib \<Rightarrow> SatelliteInfo list \<Rightarrow> 'r SatelliteData list" where
  "satelliteData lib sats =
     List.map_filter
       (\<lambda>sat. case twoline2satrec lib (line1 sat) (line2 sat) of
                Inl e \<Rightarrow> None
              | Inr r \<Rightarrow> Some \<lparr>satrec = r, info = sat, trail = []\<rparr>)
       sats"

definition setMatrixAt :: "nat \<Rightarrow> Vector3 \<times> real \<Rightarrow> InstancedMesh \<Rightarrow> InstancedMesh" where
  "setMatrixAt i m mesh = mesh\<lparr>instanceMatrix := (instanceMatrix mesh)(i \<mapsto> m)\<rparr>"

definition setColorAt :: "nat \<Rightarrow> nat \<Rightarrow> InstancedMesh \<Rightarrow> InstancedMesh" where
  "setColorAt i c mesh = mesh\<lparr>instanceColor := (instanceColor mesh)(i \<mapsto> c)\<rparr>"

text \<open>
  The \<^verbatim>\<open>try\<close> block of the per-object callback. The result is the exception thrown,
  if any, and the state as the block left it: the buffer entry is the last statement, so no
  exception can follow it.
\<close>

definition trySatellite ::
  "('r, 'h) satlib \<Rightarrow> real \<Rightarrow> string option \<Rightarrow> string option \<Rightarrow> nat \<Rightarrow>
   'r SatelliteData \<Rightarrow> 'h Satellites \<Rightarrow> exn option \<times> 'h Satellites" where
  "trySatellite lib time selected hovered index satData st =
     (case propagate lib (satrec satData) time of
        Inl e \<Rightarrow> (Some e, st)
      | Inr (positionEci, velocityEci) \<Rightarrow>
     (case gstime lib time of
        Inl e \<Rightarrow> (Some e, st)
      | Inr gmst \<Rightarrow>
     (let isTracked = (selected \<noteq> None \<and> Some (noradId (info satData)) = selected) in
      case (if isTracked
            then (case eciToEcf lib positionEci gmst of
                    Inl e \<Rightarrow> Inl e
                  | Inr satEcef \<Rightarrow> Inr (st\<lparr>hardware := pointAt lib satEcef (hardware st)\<rparr>))
            else Inr st) of
        Inl e \<Rightarrow> (Some e, st)
      | Inr st1 \<Rightarrow>
     (case eciToGeodetic lib positionEci gmst of
        Inl e \<Rightarrow> (Some e, st1)
      | Inr (lat', lon', alt') \<Rightarrow>
     (let radius = EARTH_RADIUS + alt' * SCALE_FACTOR;
          x' = radius * cos lat' * cos lon';
          y' = radius * sin lat';
          z' = radius * cos lat' * sin lon';
          isSelected = (Some (noradId (info satData)) = selected);
          isHovered = (Some (noradId (info satData)) = hovered);
          scale = (if isSelected then 0.25 else if isHovered then 0.20 else 0.15);
          tempColor = (if isSelected then 0xffff00 else if isHovered then 0xff8800 else 0xcccccc);
          st2 = st1\<lparr>meshRef :=
                      map_option (\<lambda>mesh. setColorAt index tempColor
                                            (setMatrixAt index ((x', y', z'), scale) mesh))
                                 (meshRef st1)\<rparr>;
          velocity' = sqrt ((fst velocityEci)\<^sup>2 + (fst (snd velocityEci))\<^sup>2
                            + (snd (snd velocityEci))\<^sup>2)
      in (None,
          st2\<lparr>localPositionBuffer :=
                 (localPositionBuffer st2)
                   (noradId (info satData) \<mapsto>
                      \<lparr>x = x', y = y', z = z',
                       lat = lat' * 180 / pi, lon = lon' * 180 / pi,
                       alt = alt', velocity = velocity'\<rparr>)\<rparr>))))))"

text \<open>The callback: the \<^verbatim>\<open>try\<close> block, with \<^verbatim>\<open>catch (e) { console.error(e) }\<close>.\<close>

definition processSatellite ::
  "('r, 'h) satlib \<Rightarrow> real \<Rightarrow> string option \<Rightarrow> string option \<Rightarrow> nat \<Rightarrow>
   'r SatelliteData \<Rightarrow> 'h Satellites \<Rightarrow> 'h Satellites" where
  "processSatellite lib time selected hovered index satData st =
     (case trySatellite lib time selected hovered index satData st of
        (None, st') \<Rightarrow> st'
      | (Some e, st') \<Rightarrow> st'\<lparr>console := console st' @ [e]\<rparr>)"

text \<open>\<^verbatim>\<open>satelliteData.forEach((satData, index) => ...)\<close>, from slot \<open>index\<close> on.\<close>

fun forEachSatellite ::
  "('r, 'h) satlib \<Rightarrow> real \<Rightarrow> string option \<Rightarrow> string option \<Rightarrow> nat \<Rightarrow>
   'r SatelliteData list \<Rightarrow> 'h Satellites \<Rightarrow> 'h Satellites" where
  "forEachSatellite lib time selected hovered index [] st = st"
| "forEachSatellite lib time selected hovered index (satData # rest) st =
     forEachSatellite lib time selected hovered (Suc index) rest
       (processSatellite lib time selected hovered index satData st)"

text \<open>
  The flush: every entry of the buffer is written into the store with
  \<^verbatim>\<open>setSatellitePosition\<close>, so the store's map is overridden by the buffer.
\<close>

definition flushBuffer :: "'h Satellites \<Rightarrow> 'h Satellites" where
  "flushBuffer st =
     st\<lparr>zustand := (zustand st)\<lparr>satellitePositions :=
                       satellitePositions (zustand st) ++ localPositionBuffer st\<rparr>\<rparr>"

text \<open>
  The frame callback. \<open>tickRuns\<close> is the guard at its head: the mesh is mounted and the
  memo holds at least one object. \<open>shouldUpdateZustand\<close> reads the counter after the
  increment, as the callback does.
\<close>

definition tickRuns :: "('r, 'h) satlib \<Rightarrow> 'h Satellites \<Rightarrow> bool" where
  "tickRuns lib st =
     (meshRef st \<noteq> None \<and> satelliteData lib (satellites (zustand st)) \<noteq> [])"

definition shouldUpdateZustand :: "'h Satellites \<Rightarrow> bool" where
  "shouldUpdateZustand st = (frameCounter st mod ZUSTAND_UPDATE_INTERVAL = 0)"

definition useFrame_Satellites :: "('r, 'h) satlib \<Rightarrow> 'h Satellites \<Rightarrow> 'h Satellites" where
  "useFrame_Satellites lib st =
     (if \<not> tickRuns lib st then st
      else
        (let st1 = st\<lparr>frameCounter := Suc (frameCounter st)\<rparr>;
             time = currentTime (zustand st1);
             update = shouldUpdateZustand st1;
             st2 = forEachSatellite lib time (selectedSatellite (zustand st1))
                     (hoveredSatellite (zustand st1)) 0
                     (satelliteData lib (satellites (zustand st1))) st1
         in if update then flushBuffer st2 else st2))"

section \<open>Calls that may throw\<close>

text \<open>
  The store's type gives the registered getter as a function that returns the buffer. A
  JavaScript call can also throw. To say when the position lookup fails, the lookup is
  written once more with the one call it makes as a computation that either throws or
  returns: \<open>call\<close> is what calling a function value does. \<^verbatim>\<open>Map.get\<close> and
  \<^verbatim>\<open>|| null\<close> do not throw. The getter the Satellites component registers,
  \<^verbatim>\<open>() => localPositionBuffer.current\<close>, reads a ref: calling it returns, which is
  \<open>returns\<close>.
\<close>

definition getRealtimePosition_call ::
  "((unit \<Rightarrow> PositionMap) \<Rightarrow> exn + PositionMap) \<Rightarrow> SatelliteStore \<Rightarrow> string \<Rightarrow>
   exn + SatellitePosition option" where
  "getRealtimePosition_call call state nid =
     (case realtimePositionGetter state of
        Some getter \<Rightarrow>
          (case call getter of
             Inl e \<Rightarrow> Inl e
           | Inr realtimePositions \<Rightarrow> Inr (realtimePositions nid))
      | None \<Rightarrow> Inr (satellitePositions state nid))"

definition returns :: "(unit \<Rightarrow> PositionMap) \<Rightarrow> exn + PositionMap" where
  "returns getter = Inr (getter ())"

section \<open>JavaScript arithmetic\<close>

text \<open>
  A JavaScript number is a binary64 value, and every arithmetic operation returns the
  exact result rounded to the nearest binary64 value, ties to the even significand.
  \<open>double\<close> is this rounding on the reals: the exponent of a value \<open>v\<close> is the
  integer \<open>e\<close> with \<open>pow2 e \<le> \<bar>v\<bar> < pow2 (e + 1)\<close>, the spacing of the binary64
  values around \<open>v\<close> is \<open>pow2 (e - 52)\<close>, and \<open>v\<close> is rounded to a multiple of the
  spacing. The limits of the exponent range (overflow to infinity, subnormal numbers) and
  NaN are not modelled; the quantities below stay far from them.
\<close>

definition pow2 :: "int \<Rightarrow> real" where
  "pow2 k = 2 powr real_of_int k"

definition round_even :: "real \<Rightarrow> int" where
  "round_even t =
     (let f = \<lfloor>t\<rfloor>; r = t - of_int f
      in if r < 1 / 2 then f else if 1 / 2 < r then f + 1 else if even f then f else f + 1)"

definition exponent :: "real \<Rightarrow> int" where
  "exponent v = \<lfloor>log 2 \<bar>v\<bar>\<rfloor>"

definition double :: "real \<Rightarrow> real" where
  "double v =
     sgn v * (of_int (round_even (\<bar>v\<bar> / pow2 (exponent v - 52))) * pow2 (exponent v - 52))"

definition js_add :: "real \<Rightarrow> real \<Rightarrow> real" where
  "js_add a b = double (a + b)"

definition js_sub :: "real \<Rightarrow> real \<Rightarrow> real" where
  "js_sub a b = double (a - b)"

definition js_mul :: "real \<Rightarrow> real \<Rightarrow> real" where
  "js_mul a b = double (a * b)"

definition js_div :: "real \<Rightarrow> real \<Rightarrow> real" where
  "js_div a b = double (a / b)"

section \<open>The camera transition\<close>

text \<open>
  The controller's refs and React state. \<^verbatim>\<open>controlsRef.current\<close> is \<open>None\<close> until the
  orbit controls are mounted. Interpolation is three.js's \<^verbatim>\<open>lerpVectors\<close>,
  \<^verbatim>\<open>v1 + (v2 - v1) * alpha\<close> on each component, in binary64 arithmetic. The accuracy
  of \<^verbatim>\<open>Math.pow\<close> is left to the implementation, so it is the parameter \<open>pow\<close>.
\<close>

datatype CameraState =
  overview | visiting_earth | visiting_satellite | closest_satellite_view | transitioning

record Controls =
  target :: Vector3
  autoRotate :: bool
  autoRotateSpeed :: real

record CameraController =
  cameraPosition :: Vector3
  controlsRef :: "Controls option"
  cameraState :: CameraState
  isTransitioning :: bool
  targetPosition :: Vector3
  targetLookAt :: Vector3
  transitionProgress :: real
  startCameraPosition :: Vector3
  startCameraTarget :: Vector3

definition easeOutExpo :: "(real \<Rightarrow> real \<Rightarrow> real) \<Rightarrow> real \<Rightarrow> real" where
  "easeOutExpo pow t = (if t = 1 then 1 else js_sub 1 (pow 2 (js_mul (- 10) t)))"

fun lerpVectors :: "Vector3 \<Rightarrow> Vector3 \<Rightarrow> real \<Rightarrow> Vector3" where
  "lerpVectors (a1, a2, a3) (b1, b2, b3) alpha =
     (js_add a1 (js_mul (js_sub b1 a1) alpha),
      js_add a2 (js_mul (js_sub b2 a2) alpha),
      js_add a3 (js_mul (js_sub b3 a3) alpha))"

definition startTransition :: "Vector3 \<Rightarrow> Vector3 \<Rightarrow> CameraController \<Rightarrow> CameraController" where
  "startTransition newPosition newTarget cam =
     cam\<lparr>startCameraPosition := cameraPosition cam,
         startCameraTarget :=
           (case controlsRef cam of None \<Rightarrow> startCameraTarget cam | Some c \<Rightarrow> target c),
         targetPosition := newPosition,
         targetLookAt := newTarget,
         transitionProgress := 0,
         isTransitioning := True,
         cameraState := transitioning,
         controlsRef := map_option (\<lambda>c. c\<lparr>autoRotate := False\<rparr>) (controlsRef cam)\<rparr>"

text \<open>The steady state the selection implies, resolved when the transition ends.\<close>

definition resolvedState :: "SatelliteStore \<Rightarrow> CameraState" where
  "resolvedState state =
     (if closestSatelliteMode state then closest_satellite_view
      else if \<not> truthy (visitedObject state) then overview
      else if visitedObject state = Some ''earth'' then visiting_earth
      else visiting_satellite)"

text \<open>
  The frame callback while \<^verbatim>\<open>isTransitioning\<close> holds, in two steps. \<open>transitionWrite\<close>
  is what the controller itself assigns, up to
  \<^verbatim>\<open>controlsRef.current.target.copy(currentTarget)\<close>; it is \<open>None\<close> when the branch is
  not taken (no controls, or no transition in progress; the steady-state branches are not
  part of this development). The literal \<^verbatim>\<open>1.2\<close> is the binary64 value nearest to it.
\<close>

definition transitionWrite ::
  "(real \<Rightarrow> real \<Rightarrow> real) \<Rightarrow> SatelliteStore \<Rightarrow> real \<Rightarrow> CameraController \<Rightarrow>
   CameraController option" where
  "transitionWrite pow state delta cam =
     (case controlsRef cam of
        None \<Rightarrow> None
      | Some controls \<Rightarrow>
          if \<not> isTransitioning cam then None
          else
            (let progress = js_add (transitionProgress cam) (js_mul delta (double (12 / 10)));
                 finished = (progress \<ge> 1);
                 progress' = (if finished then 1 else progress);
                 easedProgress = easeOutExpo pow progress';
                 position = lerpVectors (startCameraPosition cam) (targetPosition cam) easedProgress;
                 currentTarget = lerpVectors (startCameraTarget cam) (targetLookAt cam) easedProgress
             in Some (cam\<lparr>transitionProgress := progress',
                          isTransitioning := (if finished then False else isTransitioning cam),
                          cameraState := (if finished then resolvedState state else cameraState cam),
                          cameraPosition := position,
                          controlsRef := Some (controls\<lparr>target := currentTarget\<rparr>)\<rparr>)))"

text \<open>
  The branch ends with \<^verbatim>\<open>controlsRef.current.update()\<close>. The orbit controls are an
  external collaborator: their update pass, which may move the camera and the controls'
  own state, is the parameter \<open>update\<close>. It has no access to the controller's refs.
\<close>

definition controlsUpdate ::
  "(Vector3 \<times> Controls \<Rightarrow> Vector3 \<times> Controls) \<Rightarrow> CameraController \<Rightarrow> CameraController" where
  "controlsUpdate update cam =
     (case controlsRef cam of
        None \<Rightarrow> cam
      | Some controls \<Rightarrow>
          (let (position, controls') = update (cameraPosition cam, controls)
           in cam\<lparr>cameraPosition := position, controlsRef := Some controls'\<rparr>))"

definition transitionFrame ::
  "(Vector3 \<times> Controls \<Rightarrow> Vector3 \<times> Controls) \<Rightarrow> (real \<Rightarrow> real \<Rightarrow> real) \<Rightarrow>
   SatelliteStore \<Rightarrow> real \<Rightarrow> CameraController \<Rightarrow> CameraController option" where
  "transitionFrame update pow state delta cam =
     map_option (controlsUpdate update) (transitionWrite pow state delta cam)"

text \<open>\<open>n\<close> consecutive frames of the transition branch.\<close>

fun transitionFrames ::
  "(Vector3 \<times> Controls \<Rightarrow> Vector3 \<times> Controls) \<Rightarrow> (real \<Rightarrow> real \<Rightarrow> real) \<Rightarrow>
   SatelliteStore \<Rightarrow> real \<Rightarrow> nat \<Rightarrow> CameraController \<Rightarrow> CameraController option" where
  "transitionFrames update pow state delta 0 cam = Some cam"
| "transitionFrames update pow state delta (Suc n) cam =
     (case transitionFrame update pow state delta cam of
        None \<Rightarrow> None
      | Some cam' \<Rightarrow> transitionFrames update pow state delta n cam')"

section \<open>The level of detail of the trail\<close>

definition MAX_TRAIL_SEGMENTS :: int where
  "MAX_TRAIL_SEGMENTS = 100"

definition MIN_TRAIL_SEGMENTS :: int where
  "MIN_TRAIL_SEGMENTS = 10"

definition MAX_VISIBLE_DISTANCE :: real where
  "MAX_VISIBLE_DISTANCE = 100"

definition LOD_NEAR_DISTANCE :: real where
  "LOD_NEAR_DISTANCE = 15"

definition LOD_FAR_DISTANCE :: real where
  "LOD_FAR_DISTANCE = 50"

text \<open>
  The segment count the frame callback of the trails derives from the distance, in
  binary64 arithmetic. \<^verbatim>\<open>Math.floor\<close> of a value of this size is an integer that the
  format holds exactly.
\<close>

definition newSegments :: "real \<Rightarrow> int" where
  "newSegments distance =
     (if distance > MAX_VISIBLE_DISTANCE then 0
      else if distance < LOD_NEAR_DISTANCE then MAX_TRAIL_SEGMENTS
      else if distance < LOD_FAR_DISTANCE then
        (let t = js_div (js_sub distance LOD_NEAR_DISTANCE)
                        (js_sub LOD_FAR_DISTANCE LOD_NEAR_DISTANCE)
         in \<lfloor>js_sub (real_of_int MAX_TRAIL_SEGMENTS)
                    (js_mul t (js_sub (real_of_int MAX_TRAIL_SEGMENTS)
                                      (real_of_int MIN_TRAIL_SEGMENTS)))\<rfloor>)
      else
        (let t = js_div (js_sub distance LOD_FAR_DISTANCE)
                        (js_sub MAX_VISIBLE_DISTANCE LOD_FAR_DISTANCE)
         in max 0 \<lfloor>js_mul (real_of_int MIN_TRAIL_SEGMENTS) (js_sub 1 t)\<rfloor>))"

section \<open>Reference notions and the scenario of the specification\<close>

text \<open>The store as \<^verbatim>\<open>create\<close> initialises it (the clock reading is taken as 0).\<close>

definition initialStore :: SatelliteStore where
  "initialStore =
     \<lparr>satellites = [], satellitePositions = Map.empty, selectedSatellite = None,
      hoveredSatellite = None, followedSatellite = None, visitedObject = None,
      closestSatelliteMode = False, closestSatelliteId = None, closestSatelliteDistance = None,
      currentTime = 0, timeSpeed = 1, isPaused = False,
      searchQuery = [], filterCategory = None, filterOperator = None,
      showTrails = True, showLabels = False, trailLength = 100,
      realtimePositionGetter = None\<rparr>"

text \<open>
  The notions the specification speaks in: the Euclidean distance of two buffered
  positions in scene coordinates, the candidates of a scan (catalog entries other than the
  selected one that have a buffered position), and the inverse scaling of a scene length
  back to kilometres. None of them is read off the code; the theorems relate the code to
  them.
\<close>

definition sceneDistance :: "SatellitePosition \<Rightarrow> SatellitePosition \<Rightarrow> real" where
  "sceneDistance p q = sqrt ((x q - x p)\<^sup>2 + (y q - y p)\<^sup>2 + (z q - z p)\<^sup>2)"

definition isCandidate :: "PositionMap \<Rightarrow> string \<Rightarrow> SatelliteInfo \<Rightarrow> bool" where
  "isCandidate buf sid sat = (noradId sat \<noteq> sid \<and> buf (noradId sat) \<noteq> None)"

definition candidateDistance :: "PositionMap \<Rightarrow> SatellitePosition \<Rightarrow> SatelliteInfo \<Rightarrow> real" where
  "candidateDistance buf p sat = sceneDistance p (the (buf (noradId sat)))"

definition sceneToKm :: "real \<Rightarrow> real" where
  "sceneToKm d = d / SCALE_FACTOR"

text \<open>
  The scenario: a catalog of two objects A and B whose buffered positions are
  \<open>(0, 0, 0)\<close> and \<open>(3, 4, 0)\<close>, the buffer registered as the realtime getter, nothing
  selected yet.
\<close>

definition catalogEntry :: "string \<Rightarrow> SatelliteInfo" where
  "catalogEntry nid =
     \<lparr>name = nid, noradId = nid, line1 = [], line2 = [],
      category = None, operator = None, launchDate = None\<rparr>"

definition positionAt :: "real \<Rightarrow> real \<Rightarrow> real \<Rightarrow> SatellitePosition" where
  "positionAt a b c = \<lparr>x = a, y = b, z = c, lat = 0, lon = 0, alt = 0, velocity = 0\<rparr>"

definition scenarioBuffer :: PositionMap where
  "scenarioBuffer = [''A'' \<mapsto> positionAt 0 0 0, ''B'' \<mapsto> positionAt 3 4 0]"

definition scenarioStore :: SatelliteStore where
  "scenarioStore =
     initialStore\<lparr>satellites := [catalogEntry ''A'', catalogEntry ''B''],
                  realtimePositionGetter := Some (\<lambda>_. scenarioBuffer)\<rparr>"

definition scenarioApp :: app where
  "scenarioApp = \<lparr>store = scenarioStore, timers = []\<rparr>"

text \<open>
  For the camera: the refs a frame of the transition never assigns, what it means for a
  written vector to be the target up to the rounding of the interpolation at factor 1 (one
  subtraction and one addition per component), and a controller at rest in the overview,
  with the controls mounted.
\<close>

definition sameRefs :: "CameraController \<Rightarrow> CameraController \<Rightarrow> bool" where
  "sameRefs c c' =
     (targetPosition c' = targetPosition c \<and> targetLookAt c' = targetLookAt c \<and>
      startCameraPosition c' = startCameraPosition c \<and>
      startCameraTarget c' = startCameraTarget c \<and> controlsRef c' \<noteq> None)"

definition nearTarget :: "real \<Rightarrow> real \<Rightarrow> real \<Rightarrow> bool" where
  "nearTarget a b w = (\<bar>w - b\<bar> \<le> (\<bar>b\<bar> + \<bar>b - a\<bar>) / 2 ^ 52)"

fun withinRounding :: "Vector3 \<Rightarrow> Vector3 \<Rightarrow> Vector3 \<Rightarrow> bool" where
  "withinRounding (a1, a2, a3) (b1, b2, b3) (w1, w2, w3) =
     (nearTarget a1 b1 w1 \<and> nearTarget a2 b2 w2 \<and> nearTarget a3 b3 w3)"

definition cameraAtRest :: CameraController where
  "cameraAtRest =
     \<lparr>cameraPosition = (0, 15, 30),
      controlsRef = Some \<lparr>target = (0, 0, 0), autoRotate = False, autoRotateSpeed = 0.5\<rparr>,
      cameraState = overview, isTransitioning = False,
      targetPosition = (0, 0, 0), targetLookAt = (0, 0, 0), transitionProgress = 0,
      startCameraPosition = (0, 0, 0), startCameraTarget = (0, 0, 0)\<rparr>"

text \<open>
  For the propagation tick: \<open>flushes\<close> says that the tick taken from a state copies the
  buffer into the store. The toy orbital library identifies an object with its altitude in
  kilometres above the point of latitude 0 and longitude 0: two lines parse to the length
  of the first (an empty first line does not parse), and propagation fails for altitude 0.
\<close>

definition flushes :: "('r, 'h) satlib \<Rightarrow> 'h Satellites \<Rightarrow> bool" where
  "flushes lib st =
     (tickRuns lib st \<and> shouldUpdateZustand (st\<lparr>frameCounter := Suc (frameCounter st)\<rparr>))"

definition toyLib :: "(nat, unit) satlib" where
  "toyLib =
     \<lparr>twoline2satrec = (\<lambda>l1 l2. if l1 = [] then Inl (Error ''cannot parse'') else Inr (length l1)),
      propagate = (\<lambda>r t. if r = 0 then Inl (Error ''decayed'')
                            else Inr ((real r, 0, 0), (0, 0, 0))),
      gstime = (\<lambda>t. Inr 0),
      eciToEcf = (\<lambda>v g. Inr v),
      eciToGeodetic = (\<lambda>v g. Inr (0, 0, fst v)),
      pointAt = (\<lambda>v h. h)\<rparr>"

definition toyObject :: "string \<Rightarrow> nat \<Rightarrow> nat SatelliteData" where
  "toyObject nid r = \<lparr>satrec = r, info = catalogEntry nid, trail = []\<rparr>"

definition emptyMesh :: InstancedMesh where
  "emptyMesh = \<lparr>instanceMatrix = Map.empty, instanceColor = Map.empty\<rparr>"

definition idleComponent :: "unit Satellites" where
  "idleComponent =
     \<lparr>meshRef = None, localPositionBuffer = Map.empty, frameCounter = 0,
      hardware = (), console = [], zustand = initialStore\<rparr>"

definition runningComponent :: "unit Satellites" where
  "runningComponent =
     \<lparr>meshRef = Some emptyMesh, localPositionBuffer = scenarioBuffer, frameCounter = 59,
      hardware = (), console = [],
      zustand = initialStore\<lparr>satellites := [(catalogEntry ''A'')\<lparr>line1 := ''1''\<rparr>]\<rparr>\<rparr>"

section \<open>Selection and position lookup\<close>

text \<open>
  C8. Selecting a primary object clears compare mode: whatever the store was,
  after \<open>setSelectedSatellite nid\<close> the selection is \<open>nid\<close>, the comparison flag is
  false and the closest satellite id and distance are null; hence compare mode and a visited
  object cannot both be driving the camera after a select.
\<close>

theorem setSelectedSatellite_clears_compare:
  "selectedSatellite (setSelectedSatellite nid state) = nid \<and>
   closestSatelliteMode (setSelectedSatellite nid state) = False \<and>
   closestSatelliteId (setSelectedSatellite nid state) = None \<and>
   closestSatelliteDistance (setSelectedSatellite nid state) = None \<and>
   \<not> (closestSatelliteMode (setSelectedSatellite nid state) \<and>
      truthy (visitedObject (setSelectedSatellite nid state)))"
  by (simp add: setSelectedSatellite_def)

section \<open>The closest satellite scan\<close>

lemma getRealtimePosition_getter:
  "realtimePositionGetter state = Some getter \<Longrightarrow> getRealtimePosition state nid = getter () nid"
  by (simp add: getRealtimePosition_def)

lemma closestStep_skip:
  "realtimePositionGetter state = Some getter \<Longrightarrow> \<not> isCandidate (getter ()) sid sat \<Longrightarrow>
   closestStep state sid p sat acc = acc"
  by (auto simp: closestStep_def isCandidate_def getRealtimePosition_getter Let_def)

lemma closestStep_candidate:
  "realtimePositionGetter state = Some getter \<Longrightarrow> isCandidate (getter ()) sid sat \<Longrightarrow>
   closestStep state sid p sat acc =
     (if less_number (candidateDistance (getter ()) p sat) (snd acc)
      then (Some (noradId sat), Num (candidateDistance (getter ()) p sat)) else acc)"
  by (auto simp: closestStep_def isCandidate_def getRealtimePosition_getter Let_def
      candidateDistance_def sceneDistance_def power2_eq_square)

lemma fold_closestStep_filter:
  "realtimePositionGetter state = Some getter \<Longrightarrow>
   fold (closestStep state sid p) sats acc =
   fold (closestStep state sid p) (filter (isCandidate (getter ()) sid) sats) acc"
  by (induction sats arbitrary: acc) (simp_all add: closestStep_skip)

lemma fold_closestStep_min:
  assumes g: "realtimePositionGetter state = Some getter"
    and c: "\<forall>sat \<in> set cs. isCandidate (getter ()) sid sat"
    and ne: "cs \<noteq> []"
  shows "\<exists>k < length cs.
           fold (closestStep state sid p) cs (None, Infinity) =
             (Some (noradId (cs ! k)), Num (candidateDistance (getter ()) p (cs ! k))) \<and>
           (\<forall>j < length cs. candidateDistance (getter ()) p (cs ! k)
                               \<le> candidateDistance (getter ()) p (cs ! j)) \<and>
           (\<forall>j < k. candidateDistance (getter ()) p (cs ! k)
                       < candidateDistance (getter ()) p (cs ! j))"
  using c ne
proof (induction cs rule: rev_induct)
  case Nil
  then show ?case by simp
next
  case (snoc c cs)
  let ?d = "candidateDistance (getter ()) p"
  have cc: "isCandidate (getter ()) sid c" using snoc.prems by simp
  show ?case
  proof (cases "cs = []")
    case True
    then show ?thesis using cc g by (simp add: closestStep_candidate)
  next
    case False
    then obtain k where k: "k < length cs"
      and f: "fold (closestStep state sid p) cs (None, Infinity) = (Some (noradId (cs ! k)), Num (?d (cs ! k)))"
      and mn: "\<forall>j < length cs. ?d (cs ! k) \<le> ?d (cs ! j)"
      and st: "\<forall>j < k. ?d (cs ! k) < ?d (cs ! j)"
      using snoc.IH snoc.prems by auto
    show ?thesis
    proof (cases "?d c < ?d (cs ! k)")
      case True
      have "fold (closestStep state sid p) (cs @ [c]) (None, Infinity) = (Some (noradId c), Num (?d c))"
        using f True by (simp add: closestStep_candidate[OF g cc])
      moreover have "\<forall>j < length (cs @ [c]). ?d c \<le> ?d ((cs @ [c]) ! j)"
        using True mn by (auto simp: nth_append less_Suc_eq)  
      moreover have "\<forall>j < length cs. ?d c < ?d ((cs @ [c]) ! j)"
        using True mn by (auto simp: nth_append intro: less_le_trans)
      ultimately show ?thesis
        by (intro exI[of _ "length cs"]) simp
    next
      case F2: False
      have "fold (closestStep state sid p) (cs @ [c]) (None, Infinity) = (Some (noradId (cs ! k)), Num (?d (cs ! k)))"
        using f F2 by (simp add: closestStep_candidate[OF g cc])
      moreover have "\<forall>j < length (cs @ [c]). ?d (cs ! k) \<le> ?d ((cs @ [c]) ! j)"
        using F2 mn by (auto simp: nth_append less_Suc_eq)
      moreover have "\<forall>j < k. ?d (cs ! k) < ?d ((cs @ [c]) ! j)"
        using st k by (auto simp: nth_append)
      ultimately show ?thesis using k
        by (intro exI[of _ k]) (simp add: nth_append)
    qed
  qed
qed

lemma sqrt_25: "sqrt 25 = 5"
  using real_sqrt_abs[of 5] by simp

lemmas scenario_defs =
  scenarioApp_def scenarioStore_def initialStore_def scenarioBuffer_def catalogEntry_def
  positionAt_def run_def enableClosestSatelliteMode_def setSelectedSatellite_def
  disableClosestSatelliteMode_def fireTimer_def truthy_def

lemma scenario_selected:
  "store (run scenarioApp [Select (Some ''A''), EnableCompare]) =
     scenarioStore\<lparr>selectedSatellite := Some ''A'', closestSatelliteMode := True\<rparr> \<and>
   timers (run scenarioApp [Select (Some ''A''), EnableCompare]) = [FindClosest]"
  by (simp add: scenario_defs)

lemma scenario_find:
  "findClosestSatellite (scenarioStore\<lparr>selectedSatellite := Some ''A'', closestSatelliteMode := m\<rparr>) =
   scenarioStore\<lparr>selectedSatellite := Some ''A'', closestSatelliteMode := m,
      closestSatelliteId := Some ''B'', closestSatelliteDistance := Some (Num 5)\<rparr>"
  by (simp add: findClosestSatellite_def closestStep_def getRealtimePosition_def
      scenarioStore_def initialStore_def scenarioBuffer_def catalogEntry_def positionAt_def truthy_def sqrt_25)

text \<open>
  C1. Take a static snapshot in which the buffer is registered as the realtime getter,
  the selected id has a buffered position and at least one other catalog entry has a
  buffered position; ids are non-empty strings, as catalog numbers are (the code's
  truthiness tests treat the empty string like \<^verbatim>\<open>null\<close>). Then
  \<open>findClosestSatellite\<close> changes the store in the two closest fields only: the id
  becomes that of a candidate at the least scene distance from the selected position, the
  first such candidate in catalog order (every earlier candidate is strictly farther), and
  the distance becomes that least distance. Candidates are the catalog entries other than
  the selected one that have a buffered position. In the scenario (A selected at the
  origin, B at \<open>(3, 4, 0)\<close> the only other object) the result is B at distance 5.
\<close>

theorem findClosestSatellite_nearest:
  assumes "realtimePositionGetter state = Some getter"
    and "selectedSatellite state = Some sid" and "sid \<noteq> []"
    and "getter () sid = Some selectedPos"
    and "\<forall>sat \<in> set (satellites state). noradId sat \<noteq> []"
    and "cands = filter (isCandidate (getter ()) sid) (satellites state)"
    and "cands \<noteq> []"
  shows "\<exists>k < length cands.
           findClosestSatellite state =
             state\<lparr>closestSatelliteId := Some (noradId (cands ! k)),
                   closestSatelliteDistance :=
                     Some (Num (candidateDistance (getter ()) selectedPos (cands ! k)))\<rparr> \<and>
           (\<forall>j < length cands. candidateDistance (getter ()) selectedPos (cands ! k)
                                  \<le> candidateDistance (getter ()) selectedPos (cands ! j)) \<and>
           (\<forall>j < k. candidateDistance (getter ()) selectedPos (cands ! k)
                       < candidateDistance (getter ()) selectedPos (cands ! j))"
proof -
  let ?d = "candidateDistance (getter ()) selectedPos"
  have all: "\<forall>sat \<in> set cands. isCandidate (getter ()) sid sat"
    using assms(6) by simp
  from fold_closestStep_min[OF assms(1) all assms(7), of selectedPos]
  obtain k where k: "k < length cands"
    and f: "fold (closestStep state sid selectedPos) cands (None, Infinity) =
              (Some (noradId (cands ! k)), Num (?d (cands ! k)))"
    and mn: "\<forall>j < length cands. ?d (cands ! k) \<le> ?d (cands ! j)"
    and st: "\<forall>j < k. ?d (cands ! k) < ?d (cands ! j)"
    by blast
  have f': "fold (closestStep state sid selectedPos) (satellites state) (None, Infinity) =
              (Some (noradId (cands ! k)), Num (?d (cands ! k)))"
    using f fold_closestStep_filter[OF assms(1), of sid selectedPos "satellites state"] assms(6)
    by simp
  have "cands ! k \<in> set (satellites state)"
    using k assms(6) nth_mem[OF k] by auto
  then have tr: "truthy (Some (noradId (cands ! k)))"
    using assms(5) by (simp add: truthy_def)
  have "findClosestSatellite state =
          state\<lparr>closestSatelliteId := Some (noradId (cands ! k)),
                closestSatelliteDistance := Some (Num (?d (cands ! k)))\<rparr>"
    using assms(1-4) f' tr
    by (simp add: findClosestSatellite_def getRealtimePosition_getter truthy_def)
  then show ?thesis using k mn st by blast
qed

theorem findClosestSatellite_nearest_witness:
  "realtimePositionGetter (store (run scenarioApp [Select (Some ''A''), EnableCompare]))
     = Some (\<lambda>_. scenarioBuffer) \<and>
   selectedSatellite (store (run scenarioApp [Select (Some ''A''), EnableCompare])) = Some ''A'' \<and>
   ''A'' \<noteq> [] \<and>
   scenarioBuffer ''A'' = Some (positionAt 0 0 0) \<and>
   map noradId (satellites (store (run scenarioApp [Select (Some ''A''), EnableCompare])))
     = [''A'', ''B''] \<and>
   filter (isCandidate scenarioBuffer ''A'')
     (satellites (store (run scenarioApp [Select (Some ''A''), EnableCompare])))
     = [catalogEntry ''B''] \<and>
   closestSatelliteId
     (store (run scenarioApp [Select (Some ''A''), EnableCompare, TimerFires])) = Some ''B'' \<and>
   closestSatelliteDistance
     (store (run scenarioApp [Select (Some ''A''), EnableCompare, TimerFires])) = Some (Num 5)"
proof -
  let ?s = "store (run scenarioApp [Select (Some ''A''), EnableCompare])"
  have s: "?s = scenarioStore\<lparr>selectedSatellite := Some ''A'', closestSatelliteMode := True\<rparr>"
    using scenario_selected by simp
  have h1: "realtimePositionGetter ?s = Some (\<lambda>_. scenarioBuffer)"
    by (simp add: s scenarioStore_def)
  have h2: "selectedSatellite ?s = Some ''A''" by (simp add: s)
  have h3: "''A'' \<noteq> []" by simp
  have h4: "(\<lambda>_. scenarioBuffer) () ''A'' = Some (positionAt 0 0 0)"
    by (simp add: scenarioBuffer_def)
  have h5: "\<forall>sat \<in> set (satellites ?s). noradId sat \<noteq> []"
    by (simp add: s scenarioStore_def catalogEntry_def)
  have h6: "[catalogEntry ''B''] = filter (isCandidate ((\<lambda>_. scenarioBuffer) ()) ''A'') (satellites ?s)"
    by (simp add: s scenarioStore_def catalogEntry_def isCandidate_def scenarioBuffer_def)
  have h7: "[catalogEntry ''B''] \<noteq> []" by simp
  have d: "candidateDistance scenarioBuffer (positionAt 0 0 0) (catalogEntry ''B'') = 5"
    by (simp add: candidateDistance_def sceneDistance_def scenarioBuffer_def catalogEntry_def
        positionAt_def sqrt_25)
  have run3: "store (run scenarioApp [Select (Some ''A''), EnableCompare, TimerFires])
                = findClosestSatellite ?s"
    by (simp add: scenario_defs)
  from findClosestSatellite_nearest[OF h1 h2 h3 h4 h5 h6 h7]
  have "findClosestSatellite ?s =
          ?s\<lparr>closestSatelliteId := Some ''B'', closestSatelliteDistance := Some (Num 5)\<rparr>"
    using d by (simp add: catalogEntry_def)
  moreover have "map noradId (satellites ?s) = [''A'', ''B'']"
    by (simp add: s scenarioStore_def catalogEntry_def)
  ultimately show ?thesis
    using h1 h2 h4 h6 run3 by simp
qed

lemma fold_closestStep_none:
  assumes "\<forall>sat \<in> set sats. noradId sat = sid \<or> getRealtimePosition state (noradId sat) = None"
  shows "fold (closestStep state sid p) sats acc = acc"
  using assms by (induction sats arbitrary: acc) (auto simp: closestStep_def Let_def)

text \<open>
  C9. Requests that are invalid or not yet ready leave the state as it was: enabling
  compare mode with no selection changes neither the store nor the pending timers, and
  \<open>findClosestSatellite\<close> returns the store unchanged when nothing is selected, when the
  selected object has no position yet, and when no catalog entry other than the selected
  one has a position. The functions are total, so none of these requests fails.
\<close>

theorem not_ready_requests_are_noops:
  "(\<not> truthy (selectedSatellite (store a)) \<longrightarrow> enableClosestSatelliteMode a = a) \<and>
   (\<not> truthy (selectedSatellite state) \<longrightarrow> findClosestSatellite state = state) \<and>
   (selectedSatellite state = Some sid \<and> getRealtimePosition state sid = None
      \<longrightarrow> findClosestSatellite state = state) \<and>
   (selectedSatellite state = Some sid \<and>
    (\<forall>sat \<in> set (satellites state).
        noradId sat = sid \<or> getRealtimePosition state (noradId sat) = None)
      \<longrightarrow> findClosestSatellite state = state)"
proof (intro conjI impI)
  assume "\<not> truthy (selectedSatellite (store a))"
  then show "enableClosestSatelliteMode a = a"
    by (simp add: enableClosestSatelliteMode_def)
next
  assume "\<not> truthy (selectedSatellite state)"
  then show "findClosestSatellite state = state"
    by (cases "selectedSatellite state") (simp_all add: findClosestSatellite_def)
next
  assume "selectedSatellite state = Some sid \<and> getRealtimePosition state sid = None"
  then show "findClosestSatellite state = state"
    by (simp add: findClosestSatellite_def)
next
  assume h: "selectedSatellite state = Some sid \<and>
    (\<forall>sat \<in> set (satellites state).
        noradId sat = sid \<or> getRealtimePosition state (noradId sat) = None)"
  then have "fold (closestStep state sid p) (satellites state) (None, Infinity) = (None, Infinity)" for p
    using fold_closestStep_none[of "satellites state" sid state] by blast
  then show "findClosestSatellite state = state"
    using h by (simp add: findClosestSatellite_def truthy_def split: option.splits)
qed

theorem not_ready_requests_are_noops_witness:
  "\<not> truthy (selectedSatellite (store scenarioApp)) \<and>
   enableClosestSatelliteMode scenarioApp = scenarioApp \<and>
   findClosestSatellite scenarioStore = scenarioStore \<and>
   selectedSatellite (scenarioStore\<lparr>selectedSatellite := Some ''C''\<rparr>) = Some ''C'' \<and>
   getRealtimePosition (scenarioStore\<lparr>selectedSatellite := Some ''C''\<rparr>) ''C'' = None \<and>
   findClosestSatellite (scenarioStore\<lparr>selectedSatellite := Some ''C''\<rparr>)
     = scenarioStore\<lparr>selectedSatellite := Some ''C''\<rparr> \<and>
   map noradId (satellites (scenarioStore\<lparr>satellites := [catalogEntry ''A'', catalogEntry ''C''],
                                            selectedSatellite := Some ''A''\<rparr>))
     = [''A'', ''C''] \<and>
   getRealtimePosition (scenarioStore\<lparr>satellites := [catalogEntry ''A'', catalogEntry ''C''],
                                      selectedSatellite := Some ''A''\<rparr>) ''C'' = None \<and>
   findClosestSatellite (scenarioStore\<lparr>satellites := [catalogEntry ''A'', catalogEntry ''C''],
                                      selectedSatellite := Some ''A''\<rparr>)
     = scenarioStore\<lparr>satellites := [catalogEntry ''A'', catalogEntry ''C''],
                     selectedSatellite := Some ''A''\<rparr>"
proof -
  let ?c = "scenarioStore\<lparr>selectedSatellite := Some ''C''\<rparr>"
  let ?d = "scenarioStore\<lparr>satellites := [catalogEntry ''A'', catalogEntry ''C''],
                          selectedSatellite := Some ''A''\<rparr>"
  have a: "\<not> truthy (selectedSatellite (store scenarioApp))"
    by (simp add: scenario_defs)
  have a': "\<not> truthy (selectedSatellite scenarioStore)"
    by (simp add: scenario_defs)
  have c: "selectedSatellite ?c = Some ''C'' \<and> getRealtimePosition ?c ''C'' = None"
    by (simp add: getRealtimePosition_def scenario_defs)
  have d: "selectedSatellite ?d = Some ''A'' \<and>
           (\<forall>sat \<in> set (satellites ?d).
              noradId sat = ''A'' \<or> getRealtimePosition ?d (noradId sat) = None)"
    by (simp add: getRealtimePosition_def scenario_defs)
  from not_ready_requests_are_noops[of scenarioApp scenarioStore "''C''"] a a'
  have 1: "enableClosestSatelliteMode scenarioApp = scenarioApp"
    and 2: "findClosestSatellite scenarioStore = scenarioStore"
    by blast+
  from not_ready_requests_are_noops[of scenarioApp ?c "''C''"] c
  have 3: "findClosestSatellite ?c = ?c" by blast
  from not_ready_requests_are_noops[of scenarioApp ?d "''A''"] d
  have 4: "findClosestSatellite ?d = ?d" by blast
  have m: "map noradId (satellites ?d) = [''A'', ''C''] \<and> getRealtimePosition ?d ''C'' = None"
    by (simp add: getRealtimePosition_def scenario_defs)
  show ?thesis using a c m 1 2 3 4 by simp
qed

section \<open>The unit of the stored distance\<close>

text \<open>
  C2. The stored distance is not scaled back to kilometres. In the scenario
  the detector stores 5, the distance in scene coordinates, where the inverse scaling by
  \<open>SCALE_FACTOR\<close> gives 5000 kilometres; the details panel prints the stored 5 with
  the unit km.
\<close>

theorem closest_distance_not_in_kilometres:
  "closestSatelliteDistance
     (store (run scenarioApp [Select (Some ''A''), EnableCompare, TimerFires])) = Some (Num 5) \<and>
   sceneDistance (positionAt 0 0 0) (positionAt 3 4 0) = 5 \<and>
   sceneToKm (sceneDistance (positionAt 0 0 0) (positionAt 3 4 0)) = 5000 \<and>
   formatDistance 5 = (5, 2, ''km'')"
proof -
  have "store (run scenarioApp [Select (Some ''A''), EnableCompare, TimerFires])
          = findClosestSatellite (scenarioStore\<lparr>selectedSatellite := Some ''A'',
                                                closestSatelliteMode := True\<rparr>)"
    by (simp add: scenario_defs)
  then have "closestSatelliteDistance
     (store (run scenarioApp [Select (Some ''A''), EnableCompare, TimerFires])) = Some (Num 5)"
    by (simp add: scenario_find)
  moreover have "sceneDistance (positionAt 0 0 0) (positionAt 3 4 0) = 5"
    by (simp add: sceneDistance_def positionAt_def sqrt_25)
  ultimately show ?thesis
    by (simp add: sceneToKm_def SCALE_FACTOR_def formatDistance_def)
qed

section \<open>Deferred writes\<close>

text \<open>
  C6. The call deferred by \<open>enableClosestSatelliteMode\<close> is not guarded: when
  compare mode is disabled before the timer fires, the callback still runs the scan and
  writes its result, so the store ends with compare mode off and the closest fields set.
\<close>

theorem stale_timer_writes_after_disable:
  "closestSatelliteMode
     (store (run scenarioApp [Select (Some ''A''), EnableCompare, DisableCompare, TimerFires]))
     = False \<and>
   closestSatelliteId
     (store (run scenarioApp [Select (Some ''A''), EnableCompare, DisableCompare, TimerFires]))
     = Some ''B'' \<and>
   closestSatelliteDistance
     (store (run scenarioApp [Select (Some ''A''), EnableCompare, DisableCompare, TimerFires]))
     = Some (Num 5)"
proof -
  have "store (run scenarioApp [Select (Some ''A''), EnableCompare, DisableCompare, TimerFires])
          = findClosestSatellite (scenarioStore\<lparr>selectedSatellite := Some ''A'',
                                                closestSatelliteMode := False\<rparr>)"
    by (simp add: scenario_defs)
  then show ?thesis by (simp add: scenario_find)
qed

section \<open>The throttled copy into the store\<close>

lemma trySatellite_keeps:
  "frameCounter (snd (trySatellite lib time selected hovered i d st)) = frameCounter st \<and>
   zustand (snd (trySatellite lib time selected hovered i d st)) = zustand st \<and>
   console (snd (trySatellite lib time selected hovered i d st)) = console st"
  by (simp add: trySatellite_def Let_def split: sum.splits prod.splits)

lemma processSatellite_keeps:
  "frameCounter (processSatellite lib time selected hovered i d st) = frameCounter st \<and>
   zustand (processSatellite lib time selected hovered i d st) = zustand st"
  using trySatellite_keeps[of lib time selected hovered i d st]
  by (cases "trySatellite lib time selected hovered i d st")
     (auto simp: processSatellite_def split: option.splits)

lemma forEachSatellite_keeps:
  "frameCounter (forEachSatellite lib time selected hovered i ds st) = frameCounter st \<and>
   zustand (forEachSatellite lib time selected hovered i ds st) = zustand st"
  by (induction ds arbitrary: i st) (simp_all add: processSatellite_keeps)

lemma useFrame_Satellites_runs:
  assumes "tickRuns lib st"
  shows "frameCounter (useFrame_Satellites lib st) = Suc (frameCounter st)"
    and "zustand (useFrame_Satellites lib st) =
           (if Suc (frameCounter st) mod ZUSTAND_UPDATE_INTERVAL = 0
            then (zustand st)\<lparr>satellitePositions :=
                   satellitePositions (zustand st) ++ localPositionBuffer (useFrame_Satellites lib st)\<rparr>
            else zustand st)"
  using assms
  by (simp_all add: useFrame_Satellites_def Let_def flushBuffer_def forEachSatellite_keeps
      shouldUpdateZustand_def)

lemma useFrame_Satellites_counter:
  "frameCounter (useFrame_Satellites lib st) =
     (if tickRuns lib st then Suc (frameCounter st) else frameCounter st)"
  using useFrame_Satellites_runs(1)[of lib st] by (simp add: useFrame_Satellites_def)

lemma counter_window:
  assumes step: "\<forall>i. frameCounter (ws (Suc i)) = frameCounter (useFrame_Satellites lib (ws i))"
  shows "frameCounter (ws i) \<le> frameCounter (ws (i + n)) \<and>
         frameCounter (ws (i + n)) \<le> frameCounter (ws i) + n"
proof (induction n)
  case 0
  then show ?case by simp
next
  case (Suc n)
  have "frameCounter (ws (Suc (i + n))) =
          (if tickRuns lib (ws (i + n)) then Suc (frameCounter (ws (i + n)))
           else frameCounter (ws (i + n)))"
    using step by (simp add: useFrame_Satellites_counter)
  then show ?case using Suc by (simp split: if_splits)
qed

lemma one_flush_per_window:
  assumes step: "\<forall>i. frameCounter (ws (Suc i)) = frameCounter (useFrame_Satellites lib (ws i))"
    and "i < j" and "j < i + ZUSTAND_UPDATE_INTERVAL" and fi: "flushes lib (ws i)"
  shows "\<not> flushes lib (ws j)"
proof
  assume fj: "flushes lib (ws j)"
  let ?a = "frameCounter (ws (Suc i))" and ?b = "frameCounter (ws (Suc j))"
  have a: "?a = Suc (frameCounter (ws i))" "?a mod 60 = 0"
    using fi step
    by (simp_all add: flushes_def useFrame_Satellites_counter shouldUpdateZustand_def
        ZUSTAND_UPDATE_INTERVAL_def)
  have b: "?b = Suc (frameCounter (ws j))" "?b mod 60 = 0"
    using fj step
    by (simp_all add: flushes_def useFrame_Satellites_counter shouldUpdateZustand_def
        ZUSTAND_UPDATE_INTERVAL_def)
  obtain n where n: "j = Suc i + n" using \<open>i < j\<close> less_iff_Suc_add by auto
  have "?a \<le> frameCounter (ws j)" "frameCounter (ws j) \<le> ?a + n"
    using counter_window[OF step, of "Suc i" n] n by simp_all
  then have "?a < ?b" "?b < ?a + 60"
    using b(1) n assms(3) by (simp_all add: ZUSTAND_UPDATE_INTERVAL_def)
  then show False using a(2) b(2) by presburger
qed

lemma toy_running: "tickRuns toyLib runningComponent"
  by (simp add: tickRuns_def runningComponent_def satelliteData_def toyLib_def
      initialStore_def catalogEntry_def List.map_filter_simps)

lemma toy_idle: "\<not> tickRuns toyLib idleComponent"
  by (simp add: tickRuns_def idleComponent_def)

text \<open>
  C4. Not every tick increments the frame counter: the frame callback returns at its
  guard, before the increment, while the mesh is not mounted or the catalog is empty, as
  on the frames before the catalog has arrived. What holds is this. A tick that gets past
  the guard increments the frame counter by one, and it copies the position buffer into
  the store exactly when the incremented counter is divisible by the interval 60: then the
  store's map is overridden by the buffer, otherwise the store is unchanged. A tick stopped
  by the guard changes nothing. Consequently, along any run of ticks (the counter moved by
  the ticks only, whatever else changes between them), no window of 60 consecutive ticks
  holds two ticks that copy the buffer.
\<close>

theorem tick_before_catalog_keeps_counter:
  "\<not> (frameCounter (useFrame_Satellites toyLib idleComponent)
        = Suc (frameCounter idleComponent))"
  by (simp add: useFrame_Satellites_def tickRuns_def idleComponent_def)

text \<open>
  C4, with the guard: the increment and the copy for the ticks past the guard, the ticks
  the guard stops, and the bound of one copy in any window of 60 consecutive ticks.
\<close>

theorem throttled_flush:
  "(tickRuns lib st \<longrightarrow>
      frameCounter (useFrame_Satellites lib st) = Suc (frameCounter st) \<and>
      zustand (useFrame_Satellites lib st) =
        (if Suc (frameCounter st) mod ZUSTAND_UPDATE_INTERVAL = 0
         then (zustand st)\<lparr>satellitePositions :=
                satellitePositions (zustand st) ++ localPositionBuffer (useFrame_Satellites lib st)\<rparr>
         else zustand st)) \<and>
   (\<not> tickRuns lib st \<longrightarrow> useFrame_Satellites lib st = st) \<and>
   ((\<forall>i. frameCounter (ws (Suc i)) = frameCounter (useFrame_Satellites lib (ws i))) \<longrightarrow>
      (\<forall>k i j. k \<le> i \<and> i < j \<and> j < k + ZUSTAND_UPDATE_INTERVAL \<and> flushes lib (ws i)
                 \<longrightarrow> \<not> flushes lib (ws j)))"
proof (intro conjI impI allI)
  assume "tickRuns lib st"
  then show "frameCounter (useFrame_Satellites lib st) = Suc (frameCounter st)"
    and "zustand (useFrame_Satellites lib st) =
        (if Suc (frameCounter st) mod ZUSTAND_UPDATE_INTERVAL = 0
         then (zustand st)\<lparr>satellitePositions :=
                satellitePositions (zustand st) ++ localPositionBuffer (useFrame_Satellites lib st)\<rparr>
         else zustand st)"
    by (rule useFrame_Satellites_runs)+
next
  assume "\<not> tickRuns lib st"
  then show "useFrame_Satellites lib st = st" by (simp add: useFrame_Satellites_def)
next
  fix k i j
  assume step: "\<forall>i. frameCounter (ws (Suc i)) = frameCounter (useFrame_Satellites lib (ws i))"
    and h: "k \<le> i \<and> i < j \<and> j < k + ZUSTAND_UPDATE_INTERVAL \<and> flushes lib (ws i)"
  then have "i < j" "j < i + ZUSTAND_UPDATE_INTERVAL" "flushes lib (ws i)" by simp_all
  then show "\<not> flushes lib (ws j)" using one_flush_per_window[OF step] by blast
qed

theorem throttled_flush_witness:
  "tickRuns toyLib runningComponent \<and>
   frameCounter runningComponent = 59 \<and>
   frameCounter (useFrame_Satellites toyLib runningComponent) = 60 \<and>
   satellitePositions (zustand (useFrame_Satellites toyLib runningComponent)) =
     satellitePositions (zustand runningComponent)
       ++ localPositionBuffer (useFrame_Satellites toyLib runningComponent) \<and>
   \<not> tickRuns toyLib idleComponent \<and>
   useFrame_Satellites toyLib idleComponent = idleComponent \<and>
   (\<forall>i. frameCounter ((useFrame_Satellites toyLib ^^ Suc i) runningComponent)
          = frameCounter (useFrame_Satellites toyLib
                            ((useFrame_Satellites toyLib ^^ i) runningComponent))) \<and>
   flushes toyLib ((useFrame_Satellites toyLib ^^ 0) runningComponent) \<and>
   \<not> flushes toyLib ((useFrame_Satellites toyLib ^^ 1) runningComponent)"
proof -
  let ?ws = "\<lambda>i. (useFrame_Satellites toyLib ^^ i) runningComponent"
  have c: "frameCounter runningComponent = 59" by (simp add: runningComponent_def)
  have step: "\<forall>i. frameCounter (?ws (Suc i)) = frameCounter (useFrame_Satellites toyLib (?ws i))"
    by simp
  have f0: "flushes toyLib (?ws 0)"
    using toy_running c
    by (simp add: flushes_def shouldUpdateZustand_def ZUSTAND_UPDATE_INTERVAL_def)
  note a = throttled_flush[of toyLib runningComponent ?ws]
  note b = throttled_flush[of toyLib idleComponent ?ws]
  from a toy_running c
  have 1: "frameCounter (useFrame_Satellites toyLib runningComponent) = 60"
    and 2: "zustand (useFrame_Satellites toyLib runningComponent) =
              (zustand runningComponent)\<lparr>satellitePositions :=
                 satellitePositions (zustand runningComponent)
                   ++ localPositionBuffer (useFrame_Satellites toyLib runningComponent)\<rparr>"
    by (simp_all add: ZUSTAND_UPDATE_INTERVAL_def)
  from b toy_idle have 3: "useFrame_Satellites toyLib idleComponent = idleComponent"
    by blast
  from a step have "\<forall>k i j. k \<le> i \<and> i < j \<and> j < k + ZUSTAND_UPDATE_INTERVAL \<and> flushes toyLib (?ws i)
                 \<longrightarrow> \<not> flushes toyLib (?ws j)"
    by blast
  then have "(0::nat) \<le> 0 \<and> (0::nat) < 1 \<and> 1 < 0 + ZUSTAND_UPDATE_INTERVAL \<and> flushes toyLib (?ws 0)
                 \<longrightarrow> \<not> flushes toyLib (?ws 1)"
    by blast
  then have 4: "\<not> flushes toyLib (?ws 1)"
    using f0 by (simp add: ZUSTAND_UPDATE_INTERVAL_def)
  have 5: "satellitePositions (zustand (useFrame_Satellites toyLib runningComponent)) =
     satellitePositions (zustand runningComponent)
       ++ localPositionBuffer (useFrame_Satellites toyLib runningComponent)"
    by (subst 2) simp
  show ?thesis
    using toy_running c 1 5 toy_idle 3 step f0 4 by blast
qed

section \<open>A failing object does not disturb the others\<close>

lemma trySatellite_throw_keeps_buffer:
  "fst (trySatellite lib time selected hovered i d st) = Some e \<Longrightarrow>
   localPositionBuffer (snd (trySatellite lib time selected hovered i d st))
     = localPositionBuffer st"
  by (auto simp: trySatellite_def Let_def split: sum.splits prod.splits if_splits)

lemma trySatellite_buffer_cong:
  "localPositionBuffer st = localPositionBuffer st' \<Longrightarrow>
   fst (trySatellite lib time selected hovered i d st)
     = fst (trySatellite lib time selected hovered j d st') \<and>
   localPositionBuffer (snd (trySatellite lib time selected hovered i d st))
     = localPositionBuffer (snd (trySatellite lib time selected hovered j d st'))"
  by (simp add: trySatellite_def Let_def split: sum.splits prod.splits)

lemma processSatellite_buffer:
  "localPositionBuffer (processSatellite lib time selected hovered i d st)
     = localPositionBuffer (snd (trySatellite lib time selected hovered i d st))"
  by (cases "trySatellite lib time selected hovered i d st")
     (auto simp: processSatellite_def split: option.splits)

lemma processSatellite_console:
  "fst (trySatellite lib time selected hovered i d st) = Some e \<Longrightarrow>
   console (processSatellite lib time selected hovered i d st) = console st @ [e]"
  using trySatellite_keeps[of lib time selected hovered i d st]
  by (cases "trySatellite lib time selected hovered i d st")
     (auto simp: processSatellite_def split: option.splits)

lemma forEachSatellite_buffer_cong:
  "localPositionBuffer st = localPositionBuffer st' \<Longrightarrow>
   localPositionBuffer (forEachSatellite lib time selected hovered i ds st)
     = localPositionBuffer (forEachSatellite lib time selected hovered j ds st')"
proof (induction ds arbitrary: i j st st')
  case Nil
  then show ?case by simp
next
  case (Cons d ds)
  have "localPositionBuffer (processSatellite lib time selected hovered i d st)
          = localPositionBuffer (processSatellite lib time selected hovered j d st')"
    using trySatellite_buffer_cong[OF Cons.prems, of lib time selected hovered i d j]
    by (simp add: processSatellite_buffer)
  then show ?case using Cons.IH by simp
qed

lemma forEachSatellite_append:
  "forEachSatellite lib time selected hovered i (ds @ es) st
     = forEachSatellite lib time selected hovered (i + length ds) es
         (forEachSatellite lib time selected hovered i ds st)"
  by (induction ds arbitrary: i st) simp_all

lemma toy_try_bad:
  "trySatellite toyLib time None None i (toyObject nid 0) st = (Some (Error ''decayed''), st)"
  by (simp add: trySatellite_def toyLib_def toyObject_def)

lemma toy_process_ok:
  "0 < r \<Longrightarrow>
   localPositionBuffer (processSatellite toyLib time None None i (toyObject nid r) st)
     = (localPositionBuffer st)
         (nid \<mapsto> \<lparr>x = EARTH_RADIUS + real r * SCALE_FACTOR, y = 0, z = 0,
                  lat = 0, lon = 0, alt = real r, velocity = 0\<rparr>)"
  by (simp add: processSatellite_def trySatellite_def toyLib_def toyObject_def catalogEntry_def Let_def)

text \<open>
  C5. Within one tick over any list of objects, when the processing of one object
  throws, the exception is caught and logged, no entry of the buffer is modified by that
  object, and the loop goes on with the objects after it; the buffer at the end of the tick
  is the buffer the same tick produces with the failing object left out of the list. So
  a failure of one object among 100 leaves the positions written for the other 99 as they
  are without it.
\<close>

theorem failure_is_isolated:
  assumes "fst (trySatellite lib time selected hovered (length before) bad
                  (forEachSatellite lib time selected hovered 0 before st)) = Some e"
  shows "localPositionBuffer
           (processSatellite lib time selected hovered (length before) bad
              (forEachSatellite lib time selected hovered 0 before st))
           = localPositionBuffer (forEachSatellite lib time selected hovered 0 before st) \<and>
         console
           (processSatellite lib time selected hovered (length before) bad
              (forEachSatellite lib time selected hovered 0 before st))
           = console (forEachSatellite lib time selected hovered 0 before st) @ [e] \<and>
         forEachSatellite lib time selected hovered 0 (before @ bad # after) st
           = forEachSatellite lib time selected hovered (Suc (length before)) after
               (processSatellite lib time selected hovered (length before) bad
                  (forEachSatellite lib time selected hovered 0 before st)) \<and>
         localPositionBuffer (forEachSatellite lib time selected hovered 0 (before @ bad # after) st)
           = localPositionBuffer (forEachSatellite lib time selected hovered 0 (before @ after) st)"
proof -
  let ?st1 = "forEachSatellite lib time selected hovered 0 before st"
  let ?st2 = "processSatellite lib time selected hovered (length before) bad ?st1"
  have b: "localPositionBuffer ?st2 = localPositionBuffer ?st1"
    using trySatellite_throw_keeps_buffer[OF assms] by (simp add: processSatellite_buffer)
  have c: "console ?st2 = console ?st1 @ [e]"
    using processSatellite_console[OF assms] .
  have f: "forEachSatellite lib time selected hovered 0 (before @ bad # after) st
             = forEachSatellite lib time selected hovered (Suc (length before)) after ?st2"
    by (simp add: forEachSatellite_append)
  have "localPositionBuffer (forEachSatellite lib time selected hovered (Suc (length before)) after ?st2)
          = localPositionBuffer (forEachSatellite lib time selected hovered (length before) after ?st1)"
    using forEachSatellite_buffer_cong[OF b] .
  then have "localPositionBuffer (forEachSatellite lib time selected hovered 0 (before @ bad # after) st)
          = localPositionBuffer (forEachSatellite lib time selected hovered 0 (before @ after) st)"
    using f by (simp add: forEachSatellite_append)
  then show ?thesis using b c f by simp
qed

theorem failure_is_isolated_witness:
  "fst (trySatellite toyLib 0 None None (length [toyObject ''A'' 1000]) (toyObject ''B'' 0)
          (forEachSatellite toyLib 0 None None 0 [toyObject ''A'' 1000] runningComponent))
     = Some (Error ''decayed'') \<and>
   localPositionBuffer
     (forEachSatellite toyLib 0 None None 0
        ([toyObject ''A'' 1000] @ toyObject ''B'' 0 # [toyObject ''C'' 2000]) runningComponent)
     = localPositionBuffer
         (forEachSatellite toyLib 0 None None 0
            ([toyObject ''A'' 1000] @ [toyObject ''C'' 2000]) runningComponent) \<and>
   localPositionBuffer
     (forEachSatellite toyLib 0 None None 0
        ([toyObject ''A'' 1000] @ toyObject ''B'' 0 # [toyObject ''C'' 2000]) runningComponent)
     = [''A'' \<mapsto> \<lparr>x = 7.371, y = 0, z = 0, lat = 0, lon = 0, alt = 1000, velocity = 0\<rparr>,
        ''B'' \<mapsto> positionAt 3 4 0,
        ''C'' \<mapsto> \<lparr>x = 8.371, y = 0, z = 0, lat = 0, lon = 0, alt = 2000, velocity = 0\<rparr>]"
proof -
  have h: "fst (trySatellite toyLib 0 None None (length [toyObject ''A'' 1000]) (toyObject ''B'' 0)
          (forEachSatellite toyLib 0 None None 0 [toyObject ''A'' 1000] runningComponent))
     = Some (Error ''decayed'')"
    by (simp add: toy_try_bad)
  note main = failure_is_isolated[OF h, of "[toyObject ''C'' 2000]"]
  have v: "localPositionBuffer
         (forEachSatellite toyLib 0 None None 0
            ([toyObject ''A'' 1000] @ [toyObject ''C'' 2000]) runningComponent)
     = [''A'' \<mapsto> \<lparr>x = 7.371, y = 0, z = 0, lat = 0, lon = 0, alt = 1000, velocity = 0\<rparr>,
        ''B'' \<mapsto> positionAt 3 4 0,
        ''C'' \<mapsto> \<lparr>x = 8.371, y = 0, z = 0, lat = 0, lon = 0, alt = 2000, velocity = 0\<rparr>]"
    by (auto simp: toy_process_ok runningComponent_def scenarioBuffer_def EARTH_RADIUS_def
        SCALE_FACTOR_def fun_upd_def)
  show ?thesis using h main v by simp
qed

section \<open>The position lookup does not throw\<close>

text \<open>
  C10. The position lookup fails only if the call of a registered getter fails, and then
  with that exception: for every id it throws \<open>e\<close> exactly when a getter is registered
  and calling it throws \<open>e\<close>. When the call returns the buffer, the lookup returns the
  buffer's entry for the id (null when there is none), whatever the throttled map
  \<open>satellitePositions\<close> holds; with no getter registered it makes no call and returns the
  entry of the throttled map (null when there is none). With calls that return, as the
  call of the getter the Satellites component registers does, the lookup never throws and
  its value is \<open>getRealtimePosition\<close>; so it is after that getter has been registered,
  and after the getter has been removed the lookup falls back to the throttled map.
\<close>

theorem getRealtimePosition_never_throws:
  "(getRealtimePosition_call call state nid = Inl e \<longleftrightarrow>
      (\<exists>getter. realtimePositionGetter state = Some getter \<and> call getter = Inl e)) \<and>
   (realtimePositionGetter state = Some getter \<and> call getter = Inr buffer \<longrightarrow>
      getRealtimePosition_call call state nid = Inr (buffer nid) \<and>
      getRealtimePosition_call call (state\<lparr>satellitePositions := other\<rparr>) nid
        = Inr (buffer nid)) \<and>
   (realtimePositionGetter state = None \<longrightarrow>
      getRealtimePosition_call call state nid = Inr (satellitePositions state nid)) \<and>
   getRealtimePosition_call returns state nid = Inr (getRealtimePosition state nid) \<and>
   getRealtimePosition_call returns
     (setRealtimePositionGetter (Some (\<lambda>_. buffer)) state) nid = Inr (buffer nid) \<and>
   getRealtimePosition_call call (setRealtimePositionGetter None state) nid
     = Inr (satellitePositions state nid)"
proof (intro conjI impI)
  show "getRealtimePosition_call call state nid = Inl e \<longleftrightarrow>
      (\<exists>getter. realtimePositionGetter state = Some getter \<and> call getter = Inl e)"
    by (auto simp: getRealtimePosition_call_def split: option.splits sum.splits)
next
  assume h: "realtimePositionGetter state = Some getter \<and> call getter = Inr buffer"
  then show "getRealtimePosition_call call state nid = Inr (buffer nid)"
    by (simp add: getRealtimePosition_call_def)
  from h show "getRealtimePosition_call call (state\<lparr>satellitePositions := other\<rparr>) nid
        = Inr (buffer nid)"
    by (simp add: getRealtimePosition_call_def)
next
  assume "realtimePositionGetter state = None"
  then show "getRealtimePosition_call call state nid = Inr (satellitePositions state nid)"
    by (simp add: getRealtimePosition_call_def)
next
  show "getRealtimePosition_call returns state nid = Inr (getRealtimePosition state nid)"
    by (simp add: getRealtimePosition_call_def getRealtimePosition_def returns_def
        split: option.splits)
next
  show "getRealtimePosition_call returns
     (setRealtimePositionGetter (Some (\<lambda>_. buffer)) state) nid = Inr (buffer nid)"
    by (simp add: getRealtimePosition_call_def setRealtimePositionGetter_def returns_def)
next
  show "getRealtimePosition_call call (setRealtimePositionGetter None state) nid
     = Inr (satellitePositions state nid)"
    by (simp add: getRealtimePosition_call_def setRealtimePositionGetter_def)
qed

theorem getRealtimePosition_never_throws_witness:
  "realtimePositionGetter scenarioStore = Some (\<lambda>_. scenarioBuffer) \<and>
   returns (\<lambda>_. scenarioBuffer) = Inr scenarioBuffer \<and>
   getRealtimePosition_call returns scenarioStore ''B'' = Inr (Some (positionAt 3 4 0)) \<and>
   getRealtimePosition_call returns scenarioStore ''C'' = Inr None \<and>
   getRealtimePosition_call returns
     (scenarioStore\<lparr>satellitePositions := [''C'' \<mapsto> positionAt 1 1 1]\<rparr>) ''C'' = Inr None \<and>
   getRealtimePosition_call (\<lambda>getter. Inl (Error ''getter failed'')) scenarioStore ''B''
     = Inl (Error ''getter failed'') \<and>
   realtimePositionGetter
     (initialStore\<lparr>satellitePositions := [''C'' \<mapsto> positionAt 1 1 1]\<rparr>) = None \<and>
   getRealtimePosition_call (\<lambda>getter. Inl (Error ''getter failed''))
     (initialStore\<lparr>satellitePositions := [''C'' \<mapsto> positionAt 1 1 1]\<rparr>) ''C''
     = Inr (Some (positionAt 1 1 1)) \<and>
   getRealtimePosition_call (\<lambda>getter. Inl (Error ''getter failed''))
     (initialStore\<lparr>satellitePositions := [''C'' \<mapsto> positionAt 1 1 1]\<rparr>) ''B'' = Inr None"
proof -
  let ?i = "initialStore\<lparr>satellitePositions := [''C'' \<mapsto> positionAt 1 1 1]\<rparr>"
  let ?f = "\<lambda>getter :: unit \<Rightarrow> PositionMap. (Inl (Error ''getter failed'') :: exn + PositionMap)"
  have g: "realtimePositionGetter scenarioStore = Some (\<lambda>_. scenarioBuffer)"
    by (simp add: scenarioStore_def)
  have r: "returns (\<lambda>_. scenarioBuffer) = Inr scenarioBuffer" by (simp add: returns_def)
  have n: "realtimePositionGetter ?i = None" by (simp add: initialStore_def)
  note b = getRealtimePosition_never_throws[of returns scenarioStore "''B''" "Error ''x''"
             "\<lambda>_. scenarioBuffer" scenarioBuffer "[''C'' \<mapsto> positionAt 1 1 1]"]
  note c = getRealtimePosition_never_throws[of returns scenarioStore "''C''" "Error ''x''"
             "\<lambda>_. scenarioBuffer" scenarioBuffer "[''C'' \<mapsto> positionAt 1 1 1]"]
  note f = getRealtimePosition_never_throws[of ?f scenarioStore "''B''" "Error ''getter failed''"
             "\<lambda>_. scenarioBuffer" scenarioBuffer Map.empty]
  note i1 = getRealtimePosition_never_throws[of ?f ?i "''C''" "Error ''x''"
             "\<lambda>_. scenarioBuffer" scenarioBuffer Map.empty]
  note i2 = getRealtimePosition_never_throws[of ?f ?i "''B''" "Error ''x''"
             "\<lambda>_. scenarioBuffer" scenarioBuffer Map.empty]
  have 1: "getRealtimePosition_call returns scenarioStore ''B'' = Inr (scenarioBuffer ''B'')"
    and 2: "getRealtimePosition_call returns
              (scenarioStore\<lparr>satellitePositions := [''C'' \<mapsto> positionAt 1 1 1]\<rparr>) ''C''
              = Inr (scenarioBuffer ''C'')"
    and 3: "getRealtimePosition_call returns scenarioStore ''C'' = Inr (scenarioBuffer ''C'')"
    using b c g r by blast+
  have 4: "getRealtimePosition_call ?f scenarioStore ''B'' = Inl (Error ''getter failed'')"
    using f g by blast
  have 5: "getRealtimePosition_call ?f ?i ''C'' = Inr (satellitePositions ?i ''C'')"
    and 6: "getRealtimePosition_call ?f ?i ''B'' = Inr (satellitePositions ?i ''B'')"
    using i1 i2 n by blast+
  show ?thesis
    using g r n 1 2 3 4 5 6 by (simp add: scenarioBuffer_def)
qed

section \<open>Rounding to binary64\<close>

text \<open>
  The rounding is monotone, keeps the sign, is exact on every value that has a 53-bit
  significand (the integers below \<open>2 ^ 53\<close> among them), is idempotent, and its error
  is at most \<open>\<bar>v\<bar> / 2 ^ 53\<close>. \<open>double_at\<close> evaluates it at a value whose exponent
  is known.
\<close>

lemma pow2_pos [simp]: "0 < pow2 k"
  by (simp add: pow2_def)

lemma pow2_nonneg [simp]: "0 \<le> pow2 k"
  by (simp add: pow2_def)

lemma pow2_neq0 [simp]: "pow2 k \<noteq> 0"
  by (simp add: pow2_def)

lemma pow2_add: "pow2 (a + b) = pow2 a * pow2 b"
  by (simp add: pow2_def powr_add)

lemma pow2_mono: "a \<le> b \<Longrightarrow> pow2 a \<le> pow2 b"
  by (simp add: pow2_def)

lemma pow2_strict_mono: "a < b \<Longrightarrow> pow2 a < pow2 b"
  by (simp add: pow2_def)

lemma pow2_eval: "pow2 k = (if 0 \<le> k then 2 ^ nat k else 1 / 2 ^ nat (- k))"
  by (simp add: pow2_def powr_int)

lemma pow2_nat: "pow2 (int n) = 2 ^ n"
  by (simp add: pow2_eval)

lemma pow2_52: "pow2 52 = 2 ^ 52" and pow2_53: "pow2 53 = 2 ^ 53"
  by (simp_all add: pow2_eval)

lemma pow2_shift52: "pow2 e = 2 ^ 52 * pow2 (e - 52)"
proof -
  have "pow2 (52 + (e - 52)) = pow2 52 * pow2 (e - 52)" by (rule pow2_add)
  then show ?thesis by (simp add: pow2_52)
qed

lemma pow2_shift53: "pow2 (e + 1) = 2 ^ 53 * pow2 (e - 52)"
proof -
  have "pow2 (53 + (e - 52)) = pow2 53 * pow2 (e - 52)" by (rule pow2_add)
  moreover have "53 + (e - 52) = e + 1" by simp
  ultimately show ?thesis by (simp only: pow2_53)
qed

lemma exponent_bounds:
  assumes "v \<noteq> 0"
  shows "pow2 (exponent v) \<le> \<bar>v\<bar>" and "\<bar>v\<bar> < pow2 (exponent v + 1)"
proof -
  have "\<lfloor>log 2 \<bar>v\<bar>\<rfloor> = exponent v" by (simp add: exponent_def)
  then have "2 powr real_of_int (exponent v) \<le> \<bar>v\<bar> \<and> \<bar>v\<bar> < 2 powr (real_of_int (exponent v) + 1)"
    using floor_log_eq_powr_iff[of "\<bar>v\<bar>" 2 "exponent v"] assms by simp
  then show "pow2 (exponent v) \<le> \<bar>v\<bar>" and "\<bar>v\<bar> < pow2 (exponent v + 1)"
    by (simp_all add: pow2_def)
qed

lemma exponent_unique:
  assumes "pow2 e \<le> \<bar>v\<bar>" and "\<bar>v\<bar> < pow2 (e + 1)"
  shows "exponent v = e"
proof -
  have "0 < \<bar>v\<bar>" using assms(1) pow2_pos[of e] by linarith
  then show ?thesis
    using floor_log_eq_powr_iff[of "\<bar>v\<bar>" 2 e] assms
    by (simp add: exponent_def pow2_def)
qed

lemma round_even_bounds:
  "real_of_int (round_even t) \<le> t + 1 / 2" "t - 1 / 2 \<le> real_of_int (round_even t)"
  by (auto simp: round_even_def Let_def) linarith+

lemma round_even_int [simp]: "round_even (of_int n) = n"
  by (simp add: round_even_def)

lemma round_even_zero [simp]: "round_even 0 = 0"
  using round_even_int[of 0] by simp

lemma round_even_mono:
  assumes "s \<le> t"
  shows "round_even s \<le> round_even t"
proof (cases "\<lfloor>s\<rfloor> = \<lfloor>t\<rfloor>")
  case True
  then show ?thesis using assms by (auto simp: round_even_def Let_def)
next
  case False
  then have "\<lfloor>s\<rfloor> < \<lfloor>t\<rfloor>" using floor_mono[OF assms] by simp
  moreover have "round_even s \<le> \<lfloor>s\<rfloor> + 1" by (auto simp: round_even_def Let_def)
  moreover have "\<lfloor>t\<rfloor> \<le> round_even t" by (auto simp: round_even_def Let_def)
  ultimately show ?thesis by linarith
qed

lemma double_zero [simp]: "double 0 = 0"
  by (simp add: double_def)

lemma exponent_minus [simp]: "exponent (- v) = exponent v"
  by (simp add: exponent_def)

lemma double_minus: "double (- v) = - double v"
  by (simp add: double_def sgn_minus)

lemma double_eval:
  assumes "pow2 e \<le> \<bar>v\<bar>" and "\<bar>v\<bar> < pow2 (e + 1)"
  shows "double v = sgn v * (of_int (round_even (\<bar>v\<bar> / pow2 (e - 52))) * pow2 (e - 52))"
  using exponent_unique[OF assms] by (simp add: double_def)

lemma double_nonneg: "0 \<le> v \<Longrightarrow> 0 \<le> double v"
proof -
  assume "0 \<le> v"
  have "0 \<le> \<bar>v\<bar> / pow2 (exponent v - 52)" by simp
  then have "round_even 0 \<le> round_even (\<bar>v\<bar> / pow2 (exponent v - 52))"
    by (rule round_even_mono)
  then have "0 \<le> round_even (\<bar>v\<bar> / pow2 (exponent v - 52))"
    using round_even_int[of 0] by simp
  then show ?thesis using \<open>0 \<le> v\<close>
    by (simp add: double_def sgn_if)
qed

lemma double_pos_range:
  assumes "0 < v"
  shows "pow2 (exponent v) \<le> double v" and "double v \<le> pow2 (exponent v + 1)"
proof -
  let ?u = "pow2 (exponent v - 52)"
  have b: "pow2 (exponent v) \<le> v" "v < pow2 (exponent v + 1)"
    using exponent_bounds[of v] assms by simp_all
  have e1: "pow2 (exponent v) = 2 ^ 52 * ?u" by (rule pow2_shift52)
  have e2: "pow2 (exponent v + 1) = 2 ^ 53 * ?u" by (rule pow2_shift53)
  have "2 ^ 52 \<le> v / ?u" using b(1) e1 by (simp add: field_simps)
  then have "round_even (of_int (2 ^ 52)) \<le> round_even (v / ?u)"
    by (intro round_even_mono) simp
  then have l: "2 ^ 52 \<le> round_even (v / ?u)" by (simp only: round_even_int)
  have "v / ?u \<le> 2 ^ 53" using b(2) e2 by (simp add: field_simps)
  then have "round_even (v / ?u) \<le> round_even (of_int (2 ^ 53))"
    by (intro round_even_mono) simp
  then have h: "round_even (v / ?u) \<le> 2 ^ 53" by (simp only: round_even_int)
  have d: "double v = of_int (round_even (v / ?u)) * ?u"
    using assms by (simp add: double_def)
  have "2 ^ 52 * ?u \<le> of_int (round_even (v / ?u)) * ?u"
    using l by (intro mult_right_mono) (simp_all add: of_int_le_iff[symmetric] del: of_int_le_iff)
  then show "pow2 (exponent v) \<le> double v" using d e1 by simp
  have "of_int (round_even (v / ?u)) * ?u \<le> 2 ^ 53 * ?u"
    using h by (intro mult_right_mono) (simp_all add: of_int_le_iff[symmetric] del: of_int_le_iff)
  then show "double v \<le> pow2 (exponent v + 1)" using d e2 by simp
qed

lemma exponent_mono:
  assumes "0 < v" and "v \<le> w"
  shows "exponent v \<le> exponent w"
proof -
  have "log 2 \<bar>v\<bar> \<le> log 2 \<bar>w\<bar>" using assms by simp
  then show ?thesis unfolding exponent_def by (rule floor_mono)
qed

lemma double_mono_pos:
  assumes "0 < v" and "v \<le> w"
  shows "double v \<le> double w"
proof (cases "exponent v = exponent w")
  case True
  let ?u = "pow2 (exponent w - 52)"
  have "v / ?u \<le> w / ?u" using assms by (simp add: divide_right_mono)
  then have "round_even (v / ?u) \<le> round_even (w / ?u)" by (rule round_even_mono)
  then have "real_of_int (round_even (v / ?u)) * ?u \<le> real_of_int (round_even (w / ?u)) * ?u"
    by (intro mult_right_mono) simp_all
  then show ?thesis using assms True by (simp add: double_def)
next
  case False
  then have "exponent v + 1 \<le> exponent w" using exponent_mono[OF assms] by simp
  then have "pow2 (exponent v + 1) \<le> pow2 (exponent w)" by (rule pow2_mono)
  moreover have "double v \<le> pow2 (exponent v + 1)" using double_pos_range(2)[OF assms(1)] .
  moreover have "pow2 (exponent w) \<le> double w" using double_pos_range(1)[of w] assms by simp
  ultimately show ?thesis by linarith
qed

lemma double_mono:
  assumes "v \<le> w"
  shows "double v \<le> double w"
proof -
  consider "0 < v" | "v \<le> 0" "0 \<le> w" | "w < 0" using assms by linarith
  then show ?thesis
  proof cases
    case 1
    then show ?thesis using double_mono_pos assms by simp
  next
    case 2
    have "0 \<le> double (- v)" using 2 by (intro double_nonneg) simp
    then have "double v \<le> 0" by (simp add: double_minus)
    then show ?thesis using double_nonneg[of w] 2 by linarith
  next
    case 3
    then have "double (- w) \<le> double (- v)" using assms by (intro double_mono_pos) simp_all
    then show ?thesis by (simp add: double_minus)
  qed
qed

lemma double_error: "\<bar>double v - v\<bar> \<le> \<bar>v\<bar> / 2 ^ 53"
proof (cases "v = 0")
  case True
  then show ?thesis by simp
next
  case False
  let ?u = "pow2 (exponent v - 52)"
  let ?n = "real_of_int (round_even (\<bar>v\<bar> / ?u))"
  have e1: "pow2 (exponent v) = 2 ^ 52 * ?u" by (rule pow2_shift52)
  have "\<bar>?n - \<bar>v\<bar> / ?u\<bar> \<le> 1 / 2"
    using round_even_bounds[of "\<bar>v\<bar> / ?u"] by linarith
  then have "\<bar>?n - \<bar>v\<bar> / ?u\<bar> * ?u \<le> 1 / 2 * ?u"
    by (intro mult_right_mono) simp_all
  moreover have "\<bar>?n - \<bar>v\<bar> / ?u\<bar> * ?u = \<bar>(?n - \<bar>v\<bar> / ?u) * ?u\<bar>"
    by (simp add: abs_mult)
  moreover have "(?n - \<bar>v\<bar> / ?u) * ?u = ?n * ?u - \<bar>v\<bar>"
    using pow2_pos[of "exponent v - 52"] by (simp add: left_diff_distrib)
  ultimately have "\<bar>?n * ?u - \<bar>v\<bar>\<bar> \<le> ?u / 2"
    by simp
  moreover have "?u / 2 \<le> \<bar>v\<bar> / 2 ^ 53"
    using exponent_bounds(1)[OF False] e1 by (simp add: field_simps)
  moreover have "\<bar>double v - v\<bar> = \<bar>?n * ?u - \<bar>v\<bar>\<bar>"
    using False by (auto simp: double_def sgn_if)
  ultimately show ?thesis by linarith
qed

lemma pow2_less_cancel: "pow2 a < pow2 b \<Longrightarrow> a < b"
  using pow2_mono[of b a] by (cases "a < b") auto

lemma double_exact:
  assumes v: "v = of_int m * pow2 k" and m: "\<bar>m\<bar> < 2 ^ 53"
  shows "double v = v"
proof (cases "m = 0")
  case True
  then show ?thesis using v by simp
next
  case False
  then have nz: "v \<noteq> 0" using v by simp
  let ?e = "exponent v"
  have av: "\<bar>v\<bar> = of_int \<bar>m\<bar> * pow2 k" using v by (simp add: abs_mult)
  have "real_of_int \<bar>m\<bar> < real_of_int (2 ^ 53)"
    using m by (simp only: of_int_less_iff)
  then have "real_of_int \<bar>m\<bar> < 2 ^ 53" by simp
  then have "\<bar>v\<bar> < 2 ^ 53 * pow2 k" using av by simp
  also have "\<dots> = pow2 (53 + k)" using pow2_add[of 53 k] by (simp add: pow2_53)
  finally have "pow2 ?e < pow2 (53 + k)" using exponent_bounds(1)[OF nz] by linarith
  then have "?e < 53 + k" by (rule pow2_less_cancel)
  then have "0 \<le> k - (?e - 52)" by simp
  then obtain j where "k - (?e - 52) = int j" using nonneg_int_cases by blast
  then have j: "k = (?e - 52) + int j" by simp
  have "pow2 k = pow2 (?e - 52) * 2 ^ j"
    using pow2_add[of "?e - 52" "int j"] j by (simp add: pow2_nat)
  then have q: "\<bar>v\<bar> / pow2 (?e - 52) = of_int (\<bar>m\<bar> * 2 ^ j)"
    using av by simp
  have "double v = sgn v * (of_int (\<bar>m\<bar> * 2 ^ j) * pow2 (?e - 52))"
    unfolding double_def q round_even_int ..
  also have "\<dots> = sgn v * \<bar>v\<bar>" using q by (simp add: field_simps)
  also have "\<dots> = v" by (simp add: sgn_if)
  finally show ?thesis .
qed

lemma double_int: "\<bar>n\<bar> < 2 ^ 53 \<Longrightarrow> double (of_int n) = of_int n"
  using double_exact[of "of_int n" n 0] by (simp add: pow2_eval)

lemma double_idem [simp]: "double (double v) = double v"
proof (cases "v = 0")
  case True
  then show ?thesis by simp
next
  case False
  have pos: "double (double w) = double w" if w: "0 < w" for w
  proof -
    let ?u = "pow2 (exponent w - 52)"
    let ?n = "round_even (w / ?u)"
    have d: "double w = of_int ?n * ?u" using w by (simp add: double_def)
    have r: "pow2 (exponent w) \<le> double w" "double w \<le> pow2 (exponent w + 1)"
      using double_pos_range[OF w] by simp_all
    have n0: "0 \<le> ?n"
      using round_even_mono[of 0 "w / ?u"] w by simp
    show ?thesis
    proof (cases "double w = pow2 (exponent w + 1)")
      case True
      then show ?thesis using double_exact[of "double w" 1 "exponent w + 1"] by simp
    next
      case False
      then have "of_int ?n * ?u < 2 ^ 53 * ?u"
        using r(2) d pow2_shift53[of "exponent w"] by simp
      then have "real_of_int ?n < real_of_int (2 ^ 53)" by simp
      then have "?n < 2 ^ 53" by (simp only: of_int_less_iff)
      then show ?thesis using double_exact[of "double w" ?n "exponent w - 52"] d n0 by simp
    qed
  qed
  show ?thesis
  proof (cases "0 < v")
    case True
    then show ?thesis by (rule pos)
  next
    case F: False
    then have "double (double (- v)) = double (- v)" using False by (intro pos) simp
    then show ?thesis by (simp add: double_minus)
  qed
qed

lemma double_at:
  assumes "pow2 e \<le> \<bar>v\<bar>" and "\<bar>v\<bar> < pow2 (e + 1)"
    and "round_even (\<bar>v\<bar> / pow2 (e - 52)) = n"
  shows "double v = sgn v * (of_int n * pow2 (e - 52))"
  using double_eval[OF assms(1,2)] assms(3) by simp

lemma double_numeral [simp]:
  "numeral k < (2 :: int) ^ 53 \<Longrightarrow> double (numeral k) = numeral k"
  using double_int[of "numeral k"] by simp

lemma double_neg_numeral [simp]:
  "numeral k < (2 :: int) ^ 53 \<Longrightarrow> double (- numeral k) = - numeral k"
  using double_int[of "- numeral k"] by simp

lemma double_one [simp]: "double 1 = 1"
  using double_int[of 1] by simp

section \<open>The level of detail is monotone\<close>

lemmas lod_defs =
  newSegments_def MAX_TRAIL_SEGMENTS_def MIN_TRAIL_SEGMENTS_def MAX_VISIBLE_DISTANCE_def
  LOD_NEAR_DISTANCE_def LOD_FAR_DISTANCE_def js_sub_def js_mul_def js_div_def

lemma newSegments_mid:
  "15 \<le> d \<Longrightarrow> d < 50 \<Longrightarrow>
   newSegments d = \<lfloor>double (100 - double (double (double (d - 15) / 35) * 90))\<rfloor>"
  by (simp add: lod_defs)

lemma newSegments_far:
  "50 \<le> d \<Longrightarrow> d \<le> 100 \<Longrightarrow>
   newSegments d = max 0 \<lfloor>double (10 * double (1 - double (double (d - 50) / 50)))\<rfloor>"
  by (simp add: lod_defs)

lemma newSegments_beyond: "100 < d \<Longrightarrow> newSegments d = 0"
  by (simp add: lod_defs)

lemma newSegments_near: "d < 15 \<Longrightarrow> newSegments d = 100"
  by (simp add: lod_defs)

lemma mid_value_mono:
  assumes "d \<le> e"
  shows "double (100 - double (double (double (e - 15) / 35) * 90))
           \<le> double (100 - double (double (double (d - 15) / 35) * 90))"
proof -
  have "double (d - 15) \<le> double (e - 15)" using assms by (intro double_mono) simp
  then have "double (d - 15) / 35 \<le> double (e - 15) / 35" by (simp add: divide_right_mono)
  then have "double (double (d - 15) / 35) \<le> double (double (e - 15) / 35)"
    by (rule double_mono)
  then have "double (double (d - 15) / 35) * 90 \<le> double (double (e - 15) / 35) * 90"
    by simp
  then have "double (double (double (d - 15) / 35) * 90) \<le> double (double (double (e - 15) / 35) * 90)"
    by (rule double_mono)
  then have "100 - double (double (double (e - 15) / 35) * 90)
               \<le> 100 - double (double (double (d - 15) / 35) * 90)" by simp
  then show ?thesis by (rule double_mono)
qed

lemma mid_value_ge:
  assumes "d \<le> 50"
  shows "10 \<le> double (100 - double (double (double (d - 15) / 35) * 90))"
proof -
  have "double (d - 15) \<le> double 35" using assms by (intro double_mono) simp
  then have "double (d - 15) / 35 \<le> 1" by simp
  then have "double (double (d - 15) / 35) \<le> double 1" by (rule double_mono)
  then have "double (double (d - 15) / 35) * 90 \<le> 90" by simp
  then have "double (double (double (d - 15) / 35) * 90) \<le> double 90" by (rule double_mono)
  then have "10 \<le> 100 - double (double (double (d - 15) / 35) * 90)" by simp
  then have "double 10 \<le> double (100 - double (double (double (d - 15) / 35) * 90))"
    by (rule double_mono)
  then show ?thesis by simp
qed

lemma far_value_mono:
  assumes "d \<le> e"
  shows "double (10 * double (1 - double (double (e - 50) / 50)))
           \<le> double (10 * double (1 - double (double (d - 50) / 50)))"
proof -
  have "double (d - 50) \<le> double (e - 50)" using assms by (intro double_mono) simp
  then have "double (d - 50) / 50 \<le> double (e - 50) / 50" by (simp add: divide_right_mono)
  then have "double (double (d - 50) / 50) \<le> double (double (e - 50) / 50)"
    by (rule double_mono)
  then have "1 - double (double (e - 50) / 50) \<le> 1 - double (double (d - 50) / 50)" by simp
  then have "double (1 - double (double (e - 50) / 50)) \<le> double (1 - double (double (d - 50) / 50))"
    by (rule double_mono)
  then have "10 * double (1 - double (double (e - 50) / 50))
               \<le> 10 * double (1 - double (double (d - 50) / 50))" by simp
  then show ?thesis by (rule double_mono)
qed

lemma far_value_le:
  assumes "50 \<le> d"
  shows "double (10 * double (1 - double (double (d - 50) / 50))) \<le> 10"
proof -
  have "double 0 \<le> double (d - 50)" using assms by (intro double_mono) simp
  then have "0 \<le> double (d - 50) / 50" by simp
  then have "double 0 \<le> double (double (d - 50) / 50)" by (rule double_mono)
  then have "1 - double (double (d - 50) / 50) \<le> 1" by simp
  then have "double (1 - double (double (d - 50) / 50)) \<le> double 1" by (rule double_mono)
  then have "10 * double (1 - double (double (d - 50) / 50)) \<le> 10" by simp
  then have "double (10 * double (1 - double (double (d - 50) / 50))) \<le> double 10"
    by (rule double_mono)
  then show ?thesis by simp
qed

lemma newSegments_mid_ge: "15 \<le> d \<Longrightarrow> d < 50 \<Longrightarrow> 10 \<le> newSegments d"
  using mid_value_ge[of d] by (simp add: newSegments_mid le_floor_iff)

lemma newSegments_far_le: "50 \<le> d \<Longrightarrow> d \<le> 100 \<Longrightarrow> newSegments d \<le> 10"
  using far_value_le[of d] by (simp add: newSegments_far floor_le_iff)

lemma newSegments_nonneg: "0 \<le> newSegments d"
proof -
  consider "d < 15" | "15 \<le> d" "d < 50" | "50 \<le> d" "d \<le> 100" | "100 < d" by linarith
  then show ?thesis
  proof cases
    case 1 then show ?thesis by (simp add: newSegments_near)
  next
    case 2 then show ?thesis using newSegments_mid_ge[of d] by simp
  next
    case 3 then show ?thesis by (simp add: newSegments_far)
  next
    case 4 then show ?thesis by (simp add: newSegments_beyond)
  qed
qed

lemma newSegments_antimono:
  assumes "15 \<le> d" and "d \<le> e"
  shows "newSegments e \<le> newSegments d"
proof -
  consider "e < 50" | "d < 50" "50 \<le> e" "e \<le> 100" | "50 \<le> d" "e \<le> 100" | "100 < e"
    using assms by linarith
  then show ?thesis
  proof cases
    case 1
    then have "d < 50" using assms by simp
    then show ?thesis
      using assms 1 mid_value_mono[OF assms(2)] by (simp add: newSegments_mid floor_mono)
  next
    case 2
    then show ?thesis
      using newSegments_mid_ge[of d] newSegments_far_le[of e] assms by simp
  next
    case 3
    have "\<lfloor>double (10 * double (1 - double (double (e - 50) / 50)))\<rfloor>
            \<le> \<lfloor>double (10 * double (1 - double (double (d - 50) / 50)))\<rfloor>"
      using far_value_mono[OF assms(2)] by (rule floor_mono)
    then show ?thesis
      using assms 3 by (simp add: newSegments_far)
  next
    case 4
    then show ?thesis using newSegments_nonneg[of d] by (simp add: newSegments_beyond)
  qed
qed

lemma newSegments_ends:
  "newSegments 15 = 100" "newSegments 50 = 10" "newSegments 100 = 0"
  by (simp_all add: newSegments_mid newSegments_far)

lemma double_four_fifths: "double (4 / 5) = 7205759403792794 / 2 ^ 53"
  using double_at[of "- 1" "4 / 5" 7205759403792794]
  by (simp add: pow2_eval round_even_def Let_def)

lemma double_nine_tenths: "double (9 / 10) = 8106479329266893 / 2 ^ 53"
  using double_at[of "- 1" "9 / 10" 8106479329266893]
  by (simp add: pow2_eval round_even_def Let_def)

lemma double_frac:
  assumes "\<bar>m\<bar> < 2 ^ 53"
  shows "double (real_of_int m / 2 ^ k) = real_of_int m / 2 ^ k"
proof -
  have "pow2 (- int k) = 1 / 2 ^ k"
    by (cases "k = 0") (simp_all add: pow2_eval)
  then have "real_of_int m / 2 ^ k = real_of_int m * pow2 (- int k)" by simp
  then show ?thesis using double_exact[OF _ assms] by simp
qed

lemma newSegments_90: "newSegments 90 = 1"
proof -
  have a: "double (900719925474099 / 4503599627370496) = 900719925474099 / 4503599627370496"
    using double_frac[of 900719925474099 52] by simp
  have b: "double (4503599627370495 / 2251799813685248) = 4503599627370495 / 2251799813685248"
    using double_frac[of 4503599627370495 51] by simp
  show ?thesis
    by (simp add: newSegments_far double_four_fifths a b)
qed

lemma newSegments_95: "newSegments 95 = 0"
proof -
  have a: "double (900719925474099 / 9007199254740992) = 900719925474099 / 9007199254740992"
    using double_frac[of 900719925474099 53] by simp
  have b: "double (4503599627370495 / 4503599627370496) = 4503599627370495 / 4503599627370496"
    using double_frac[of 4503599627370495 52] by simp
  show ?thesis
    by (simp add: newSegments_far double_nine_tenths a b)
qed

text \<open>
  C7. In the code's binary64 arithmetic, the sample count derived from the distance
  \<open>d\<close> between camera and object is the maximum count for every \<open>d\<close> below the near
  threshold, does not increase with \<open>d\<close> from the near threshold on (through the
  interpolation region, the falloff region and the region beyond the maximum visible
  distance), is 0 for every \<open>d\<close> beyond the maximum visible distance, and is never
  negative. At the three thresholds it is the maximum count, the minimum count and 0.
  At distance 90 and 95 the count is 1 and 0, where exact arithmetic would give 2 and 1.
\<close>

theorem newSegments_level_of_detail:
  "(d < LOD_NEAR_DISTANCE \<longrightarrow> newSegments d = MAX_TRAIL_SEGMENTS) \<and>
   (LOD_NEAR_DISTANCE \<le> d \<and> d \<le> e \<longrightarrow> newSegments e \<le> newSegments d) \<and>
   (MAX_VISIBLE_DISTANCE < d \<longrightarrow> newSegments d = 0) \<and>
   0 \<le> newSegments d \<and>
   newSegments LOD_NEAR_DISTANCE = MAX_TRAIL_SEGMENTS \<and>
   newSegments LOD_FAR_DISTANCE = MIN_TRAIL_SEGMENTS \<and>
   newSegments MAX_VISIBLE_DISTANCE = 0"
  using newSegments_near[of d] newSegments_antimono[of d e] newSegments_nonneg[of d]
    newSegments_beyond[of d] newSegments_ends
  by (simp add: LOD_NEAR_DISTANCE_def LOD_FAR_DISTANCE_def MAX_VISIBLE_DISTANCE_def
      MAX_TRAIL_SEGMENTS_def MIN_TRAIL_SEGMENTS_def)

theorem newSegments_level_of_detail_witness:
  "(10 :: real) < LOD_NEAR_DISTANCE \<and> newSegments 10 = MAX_TRAIL_SEGMENTS \<and>
   LOD_NEAR_DISTANCE \<le> 90 \<and> (90 :: real) \<le> 95 \<and> newSegments 95 \<le> newSegments 90 \<and>
   newSegments 90 = 1 \<and> newSegments 95 = 0 \<and>
   MAX_VISIBLE_DISTANCE < 110 \<and> newSegments 110 = 0"
proof -
  have a: "(10 :: real) < LOD_NEAR_DISTANCE"
    and b: "LOD_NEAR_DISTANCE \<le> 90 \<and> (90 :: real) \<le> 95"
    and c: "MAX_VISIBLE_DISTANCE < 110"
    by (simp_all add: LOD_NEAR_DISTANCE_def MAX_VISIBLE_DISTANCE_def)
  from newSegments_level_of_detail[of 10 95] a
  have 1: "newSegments 10 = MAX_TRAIL_SEGMENTS" by blast
  from newSegments_level_of_detail[of 90 95] b
  have 2: "newSegments 95 \<le> newSegments 90" by blast
  from newSegments_level_of_detail[of 110 110] c
  have 3: "newSegments 110 = 0" by blast
  show ?thesis using a b c 1 2 3 newSegments_90 newSegments_95 by simp
qed

section \<open>The camera transition completes\<close>

lemma one_le_double_twelve_tenths: "1 \<le> double (12 / 10)"
proof -
  have "double 1 \<le> double (12 / 10)" by (rule double_mono) simp
  then show ?thesis by (simp only: double_one)
qed

lemma double_two_pow_minus_52: "double (1 / 2 ^ 52) = 1 / 2 ^ 52"
  using double_frac[of 1 52] by simp

lemma advance_ge:
  assumes "1 / 2 ^ 52 \<le> delta"
  shows "1 / 2 ^ 52 \<le> js_mul delta (double (12 / 10))"
proof -
  have "(0 :: real) < 1 / 2 ^ 52" by simp
  then have "0 \<le> delta" using assms by linarith
  then have "delta * 1 \<le> delta * double (12 / 10)"
    using one_le_double_twelve_tenths by (rule mult_left_mono[rotated])
  then have "1 / 2 ^ 52 \<le> delta * double (12 / 10)"
    using assms by linarith
  then have "double (1 / 2 ^ 52) \<le> double (delta * double (12 / 10))"
    by (rule double_mono)
  then show ?thesis by (simp only: double_two_pow_minus_52 js_mul_def)
qed

lemma step_increase:
  assumes "0 \<le> p" and "1 / 2 ^ 52 \<le> c" and "js_add p c < 1"
  shows "p + 1 / 2 ^ 54 \<le> js_add p c"
proof -
  let ?s = "p + c"
  let ?d = "double (p + c)"
  have "\<bar>?d - ?s\<bar> \<le> \<bar>?s\<bar> / 2 ^ 53" by (rule double_error)
  moreover have "(0 :: real) < 1 / 2 ^ 52" by simp
  then have s0: "0 \<le> ?s" using assms(1,2) by linarith
  ultimately have e: "?s - ?s / 2 ^ 53 \<le> ?d" by linarith
  have l: "?d < 1" using assms(3) by (simp only: js_add_def)
  have "?s - ?s / 2 ^ 53 < 1" using e l by linarith
  then have "?s * (2 ^ 53 - 1) < 2 ^ 53" by (simp add: field_simps)
  then have "?s < 2" using s0 by (simp add: field_simps)
  then have "?s / 2 ^ 53 < 2 / 2 ^ 53" by (simp add: field_simps)
  then have b: "?s - 2 / 2 ^ 53 < ?d" using e by linarith
  have "?s - ?s / 2 ^ 53 < 1" using e l by linarith
  then have u: "?s / 2 ^ 53 < 1 / 2 ^ 53 + 2 / 2 ^ 106"
    using \<open>?s < 2\<close> by (simp add: field_simps)
  have c54: "(1 :: real) / 2 ^ 52 - (1 / 2 ^ 53 + 2 / 2 ^ 106) \<ge> 1 / 2 ^ 54" by simp
  have "p + 1 / 2 ^ 54 \<le> ?d"
    using e u c54 assms(2) by linarith
  then show ?thesis by (simp only: js_add_def)
qed

lemma nearTarget_lerp_one: "nearTarget a b (js_add a (js_mul (js_sub b a) 1))"
proof -
  let ?y = "double (b - a)"
  let ?w = "double (a + ?y)"
  have w: "js_add a (js_mul (js_sub b a) 1) = ?w"
    by (simp add: js_add_def js_mul_def js_sub_def)
  have 1: "\<bar>?y - (b - a)\<bar> \<le> \<bar>b - a\<bar> / 2 ^ 53" by (rule double_error)
  have 2: "\<bar>?w - (a + ?y)\<bar> \<le> \<bar>a + ?y\<bar> / 2 ^ 53" by (rule double_error)
  have "\<bar>a + ?y\<bar> \<le> \<bar>b\<bar> + \<bar>?y - (b - a)\<bar>" by linarith
  then have 3: "\<bar>a + ?y\<bar> \<le> \<bar>b\<bar> + \<bar>b - a\<bar> / 2 ^ 53" using 1 by linarith
  have "\<bar>b - a\<bar> / 2 ^ 53 \<le> \<bar>b - a\<bar>" by (simp add: field_simps)
  then have "\<bar>a + ?y\<bar> \<le> \<bar>b\<bar> + \<bar>b - a\<bar>" using 3 by linarith
  then have "\<bar>a + ?y\<bar> / 2 ^ 53 \<le> (\<bar>b\<bar> + \<bar>b - a\<bar>) / 2 ^ 53"
    by (rule divide_right_mono) simp
  then have 4: "\<bar>?w - (a + ?y)\<bar> \<le> (\<bar>b\<bar> + \<bar>b - a\<bar>) / 2 ^ 53" using 2 by linarith
  have "\<bar>b - a\<bar> / 2 ^ 53 \<le> (\<bar>b\<bar> + \<bar>b - a\<bar>) / 2 ^ 53"
    by (rule divide_right_mono) simp_all
  then have 5: "\<bar>?y - (b - a)\<bar> \<le> (\<bar>b\<bar> + \<bar>b - a\<bar>) / 2 ^ 53" using 1 by linarith
  have "\<bar>?w - b\<bar> \<le> \<bar>?w - (a + ?y)\<bar> + \<bar>?y - (b - a)\<bar>" by linarith
  then have "\<bar>?w - b\<bar> \<le> (\<bar>b\<bar> + \<bar>b - a\<bar>) / 2 ^ 53 + (\<bar>b\<bar> + \<bar>b - a\<bar>) / 2 ^ 53"
    using 4 5 by linarith
  moreover have "(\<bar>b\<bar> + \<bar>b - a\<bar>) / 2 ^ 53 + (\<bar>b\<bar> + \<bar>b - a\<bar>) / 2 ^ 53
                   = (\<bar>b\<bar> + \<bar>b - a\<bar>) / 2 ^ 52"
    by simp
  ultimately show ?thesis by (simp only: w nearTarget_def)
qed

lemma withinRounding_lerp_one: "withinRounding a b (lerpVectors a b 1)"
  by (cases a; cases b) (simp add: nearTarget_lerp_one)

lemma easeOutExpo_one: "easeOutExpo pow 1 = 1"
  by (simp add: easeOutExpo_def)

lemma transitionWrite_last:
  assumes "controlsRef cam \<noteq> None" and "isTransitioning cam"
    and "1 \<le> js_add (transitionProgress cam) (js_mul delta (double (12 / 10)))"
  shows "\<exists>w. transitionWrite pow state delta cam = Some w \<and>
             transitionProgress w = 1 \<and> \<not> isTransitioning w \<and>
             cameraState w = resolvedState state \<and>
             cameraPosition w = lerpVectors (startCameraPosition cam) (targetPosition cam) 1 \<and>
             target (the (controlsRef w)) = lerpVectors (startCameraTarget cam) (targetLookAt cam) 1"
  using assms
  by (auto simp: transitionWrite_def Let_def easeOutExpo_one)

lemma transitionWrite_next:
  assumes "controlsRef cam \<noteq> None" and "isTransitioning cam"
    and "\<not> 1 \<le> js_add (transitionProgress cam) (js_mul delta (double (12 / 10)))"
  shows "\<exists>w. transitionWrite pow state delta cam = Some w \<and> sameRefs cam w \<and>
             isTransitioning w \<and>
             transitionProgress w = js_add (transitionProgress cam) (js_mul delta (double (12 / 10)))"
  using assms
  by (auto simp: transitionWrite_def sameRefs_def Let_def)

lemma transitionWrite_one:
  assumes "transitionWrite pow state delta c = Some w" and "transitionProgress w = 1"
  shows "cameraPosition w = lerpVectors (startCameraPosition c) (targetPosition c) 1 \<and>
         target (the (controlsRef w)) = lerpVectors (startCameraTarget c) (targetLookAt c) 1 \<and>
         \<not> isTransitioning w \<and> cameraState w = resolvedState state"
  using assms
  by (auto simp: transitionWrite_def Let_def easeOutExpo_one split: option.splits if_splits)

lemma controlsUpdate_keeps:
  assumes "controlsRef w \<noteq> None"
  shows "transitionProgress (controlsUpdate update w) = transitionProgress w \<and>
         isTransitioning (controlsUpdate update w) = isTransitioning w \<and>
         sameRefs w (controlsUpdate update w)"
  using assms
  by (auto simp: controlsUpdate_def sameRefs_def Let_def split: prod.splits)

lemma sameRefs_trans: "sameRefs a b \<Longrightarrow> sameRefs b c \<Longrightarrow> sameRefs a c"
  by (simp add: sameRefs_def)

lemma transition_reaches:
  assumes "1 / 2 ^ 52 \<le> delta" and "controlsRef cam \<noteq> None" and "isTransitioning cam"
    and "0 \<le> transitionProgress cam"
    and "1 \<le> transitionProgress cam + real (Suc n) / 2 ^ 54"
  shows "\<exists>k c w. k \<le> n \<and> transitionFrames update pow state delta k cam = Some c \<and>
               (c = cam \<or> sameRefs cam c) \<and>
               transitionWrite pow state delta c = Some w \<and>
               transitionProgress w = 1 \<and> \<not> isTransitioning w"
  using assms(2-)
proof (induction n arbitrary: cam)
  case 0
  let ?q = "js_add (transitionProgress cam) (js_mul delta (double (12 / 10)))"
  have "1 \<le> ?q"
  proof (rule ccontr)
    assume "\<not> 1 \<le> ?q"
    then have "transitionProgress cam + 1 / 2 ^ 54 \<le> ?q"
      using step_increase[OF "0.prems"(3) advance_ge[OF assms(1)]] by simp
    then show False using "0.prems"(4) \<open>\<not> 1 \<le> ?q\<close> by simp
  qed
  then obtain w where "transitionWrite pow state delta cam = Some w"
    "transitionProgress w = 1" "\<not> isTransitioning w"
    using transitionWrite_last[OF "0.prems"(1,2), of delta pow state] by blast
  then show ?case by (intro exI[of _ 0] exI[of _ cam] exI[of _ w]) simp
next
  case (Suc n)
  let ?q = "js_add (transitionProgress cam) (js_mul delta (double (12 / 10)))"
  show ?case
  proof (cases "1 \<le> ?q")
    case True
    then obtain w where "transitionWrite pow state delta cam = Some w"
      "transitionProgress w = 1" "\<not> isTransitioning w"
      using transitionWrite_last[OF Suc.prems(1,2), of delta pow state] by blast
    then show ?thesis by (intro exI[of _ 0] exI[of _ cam] exI[of _ w]) simp
  next
    case False
    then obtain w1 where w1: "transitionWrite pow state delta cam = Some w1"
      "sameRefs cam w1" "isTransitioning w1" "transitionProgress w1 = ?q"
      using transitionWrite_next[OF Suc.prems(1,2), of delta pow state] by blast
    let ?c1 = "controlsUpdate update w1"
    have m: "controlsRef w1 \<noteq> None" using w1(2) by (simp add: sameRefs_def)
    have k1: "transitionProgress ?c1 = ?q" "isTransitioning ?c1" "sameRefs w1 ?c1"
      using controlsUpdate_keeps[OF m, of update] w1(3,4) by simp_all
    have s1: "sameRefs cam ?c1" using sameRefs_trans[OF w1(2) k1(3)] .
    have f1: "transitionFrame update pow state delta cam = Some ?c1"
      by (simp add: transitionFrame_def w1(1))
    have inc: "transitionProgress cam + 1 / 2 ^ 54 \<le> ?q"
      using step_increase[OF Suc.prems(3) advance_ge[OF assms(1)]] False by simp
    have "real (Suc (Suc n)) / 2 ^ 54 = 1 / 2 ^ 54 + real (Suc n) / 2 ^ 54"
      by (simp add: add_divide_distrib)
    then have "1 \<le> transitionProgress ?c1 + real (Suc n) / 2 ^ 54"
      using Suc.prems(4) inc k1(1) by linarith
    moreover have "0 \<le> transitionProgress ?c1" using inc Suc.prems(3) k1(1) by simp
    moreover have "controlsRef ?c1 \<noteq> None" using s1 by (simp add: sameRefs_def)
    ultimately obtain k c w where r: "k \<le> n"
      "transitionFrames update pow state delta k ?c1 = Some c"
      "c = ?c1 \<or> sameRefs ?c1 c"
      "transitionWrite pow state delta c = Some w"
      "transitionProgress w = 1" "\<not> isTransitioning w"
      using Suc.IH[of ?c1] k1(2) by blast
    have "sameRefs cam c" using r(3) s1 sameRefs_trans by blast
    moreover have "transitionFrames update pow state delta (Suc k) cam = Some c"
      using f1 r(2) by simp
    ultimately show ?thesis using r(1,4,5,6)
      by (intro exI[of _ "Suc k"] exI[of _ c] exI[of _ w]) simp
  qed
qed

lemma advance_near:
  assumes "0 \<le> delta"
  shows "\<bar>js_mul delta (double (12 / 10)) - delta * (12 / 10)\<bar> \<le> delta * (12 / 10) / 2 ^ 51"
proof -
  let ?d = "double (12 / 10)"
  have d: "\<bar>?d - 12 / 10\<bar> \<le> \<bar>12 / 10\<bar> / 2 ^ 53" by (rule double_error)
  have "delta * ?d - delta * (12 / 10) = delta * (?d - 12 / 10)"
    by (simp only: right_diff_distrib)
  then have "\<bar>delta * ?d - delta * (12 / 10)\<bar> = \<bar>delta\<bar> * \<bar>?d - 12 / 10\<bar>"
    by (simp only: abs_mult)
  then have "\<bar>delta * ?d - delta * (12 / 10)\<bar> = delta * \<bar>?d - 12 / 10\<bar>"
    using assms by (simp only: abs_of_nonneg)
  moreover have "delta * \<bar>?d - 12 / 10\<bar> \<le> delta * (\<bar>12 / 10\<bar> / 2 ^ 53)"
    using d assms by (rule mult_left_mono)
  ultimately have 1: "\<bar>delta * ?d - delta * (12 / 10)\<bar> \<le> delta * (12 / 10) / 2 ^ 53"
    by simp
  have 2: "\<bar>double (delta * ?d) - delta * ?d\<bar> \<le> \<bar>delta * ?d\<bar> / 2 ^ 53"
    by (rule double_error)
  have "delta * (12 / 10) / 2 ^ 53 \<le> delta * (12 / 10)"
    using assms by (simp add: field_simps)
  then have "\<bar>delta * ?d\<bar> \<le> 2 * (delta * (12 / 10))" using 1 by linarith
  then have "\<bar>delta * ?d\<bar> / 2 ^ 53 \<le> 2 * (delta * (12 / 10)) / 2 ^ 53"
    by (rule divide_right_mono) simp
  then have 3: "\<bar>double (delta * ?d) - delta * ?d\<bar> \<le> 2 * (delta * (12 / 10)) / 2 ^ 53"
    using 2 by linarith
  have "\<bar>double (delta * ?d) - delta * (12 / 10)\<bar>
          \<le> 2 * (delta * (12 / 10)) / 2 ^ 53 + delta * (12 / 10) / 2 ^ 53"
    using 1 3 by linarith
  moreover have "2 * (delta * (12 / 10)) / 2 ^ 53 + delta * (12 / 10) / 2 ^ 53
                   \<le> delta * (12 / 10) / 2 ^ 51"
    using assms by (simp add: field_simps)
  ultimately show ?thesis by (simp only: js_mul_def)
qed

lemma transitionWrite_progress:
  assumes "transitionWrite pow state delta c = Some w"
  shows "transitionProgress w =
           (if 1 \<le> js_add (transitionProgress c) (js_mul delta (double (12 / 10))) then 1
            else js_add (transitionProgress c) (js_mul delta (double (12 / 10))))"
  using assms
  by (auto simp: transitionWrite_def Let_def split: option.splits if_splits)

lemma transition_stalls:
  assumes "controlsRef cam \<noteq> None" and "isTransitioning cam"
    and "js_add (transitionProgress cam) (js_mul delta (double (12 / 10))) = transitionProgress cam"
    and "transitionProgress cam < 1"
  shows "\<exists>c. transitionFrames update pow state delta n cam = Some c \<and> isTransitioning c \<and>
             transitionProgress c = transitionProgress cam \<and> controlsRef c \<noteq> None"
  using assms
proof (induction n arbitrary: cam)
  case 0
  then show ?case by simp
next
  case (Suc n)
  have "\<not> 1 \<le> js_add (transitionProgress cam) (js_mul delta (double (12 / 10)))"
    using Suc.prems(3,4) by simp
  then obtain w1 where w1: "transitionWrite pow state delta cam = Some w1"
    "sameRefs cam w1" "isTransitioning w1"
    "transitionProgress w1 = js_add (transitionProgress cam) (js_mul delta (double (12 / 10)))"
    using transitionWrite_next[OF Suc.prems(1,2), of delta pow state] by blast
  let ?c1 = "controlsUpdate update w1"
  have m: "controlsRef w1 \<noteq> None" using w1(2) by (simp add: sameRefs_def)
  have k1: "transitionProgress ?c1 = transitionProgress cam" "isTransitioning ?c1"
    "controlsRef ?c1 \<noteq> None"
    using controlsUpdate_keeps[OF m, of update] w1(3,4) Suc.prems(3)
    by (simp_all add: sameRefs_def)
  have f1: "transitionFrame update pow state delta cam = Some ?c1"
    by (simp add: transitionFrame_def w1(1))
  obtain c where "transitionFrames update pow state delta n ?c1 = Some c"
    "isTransitioning c" "transitionProgress c = transitionProgress ?c1" "controlsRef c \<noteq> None"
    using Suc.IH[of ?c1] k1 Suc.prems(3,4) by auto
  then show ?case using f1 k1(1) by simp
qed

lemma double_tenth: "double (1 / 10) = 3602879701896397 / 2 ^ 55"
  using double_at[of "- 4" "1 / 10" 7205759403792794]
  by (simp add: pow2_eval round_even_def Let_def)

lemma lerp_tenth:
  "js_add 15 (js_mul (js_sub (3602879701896397 / 2 ^ 55) 15) 1) = 56294995342131 / 2 ^ 49"
proof -
  have "(3602879701896397 / 2 ^ 55 - 15 :: real) = - (536829075582563123 / 2 ^ 55)"
    by simp
  moreover have "double (536829075582563123 / 2 ^ 55) = 8387954305977549 / 2 ^ 49"
    using double_at[of 3 "536829075582563123 / 2 ^ 55" 8387954305977549]
    by (simp add: pow2_eval round_even_def Let_def)
  ultimately have a: "js_sub (3602879701896397 / 2 ^ 55) 15 = - (8387954305977549 / 2 ^ 49)"
    by (simp only: js_sub_def double_minus)
  have "double (8387954305977549 / 2 ^ 49) = 8387954305977549 / 2 ^ 49"
    using double_frac[of 8387954305977549 49] by simp
  then have b: "js_mul (- (8387954305977549 / 2 ^ 49)) 1 = - (8387954305977549 / 2 ^ 49)"
    by (simp only: js_mul_def mult_1_right double_minus)
  have "(15 + - (8387954305977549 / 2 ^ 49) :: real) = 56294995342131 / 2 ^ 49"
    by simp
  moreover have "double (56294995342131 / 2 ^ 49) = 56294995342131 / 2 ^ 49"
    using double_frac[of 56294995342131 49] by simp
  ultimately have c: "js_add 15 (- (8387954305977549 / 2 ^ 49)) = 56294995342131 / 2 ^ 49"
    by (simp only: js_add_def)
  show ?thesis by (simp only: a b c)
qed

lemma lerp_same: "js_add 30 (js_mul (js_sub 30 30) 1) = 30" "js_add 0 (js_mul (js_sub 0 0) 1) = 0"
  by (simp_all add: js_add_def js_mul_def js_sub_def)

lemma first_frame_finishes: "1 \<le> js_add 0 (js_mul 1 (double (12 / 10)))"
proof -
  have "js_add 0 (js_mul 1 (double (12 / 10))) = double (12 / 10)"
    by (simp add: js_add_def js_mul_def)
  then show ?thesis using one_le_double_twelve_tenths by simp
qed

lemma double_twelve_tenths: "double (12 / 10) = 5404319552844595 / 2 ^ 52"
  using double_at[of 0 "12 / 10" 5404319552844595]
  by (simp add: pow2_eval round_even_def Let_def)

lemma tiny_advance_absorbed:
  "js_add (1 / 2) (js_mul (1 / 2 ^ 60) (double (12 / 10))) = 1 / 2"
proof -
  have "(1 / 2 ^ 60 * (5404319552844595 / 2 ^ 52) :: real) = 5404319552844595 / 2 ^ 112"
    by simp
  moreover have "double (5404319552844595 / 2 ^ 112) = 5404319552844595 / 2 ^ 112"
    using double_frac[of 5404319552844595 112] by simp
  ultimately have a: "js_mul (1 / 2 ^ 60) (double (12 / 10)) = 5404319552844595 / 2 ^ 112"
    by (simp only: js_mul_def double_twelve_tenths)
  have "double (1 / 2 + 5404319552844595 / 2 ^ 112) = 1 / 2"
    using double_at[of "- 1" "1 / 2 + 5404319552844595 / 2 ^ 112" 4503599627370496]
    by (simp add: pow2_eval round_even_def Let_def)
  then show ?thesis by (simp only: a js_add_def)
qed




end
